theory Spec2Isabelle
  imports Complex_Main "HOL-Library.Multiset" "HOL-Library.Log_Nat"
begin

section \<open>Shared vocabulary: time, exceptions, JSON, identifiers, collections\<close>

text \<open>
  The three modules are Flask route handlers over MongoDB collections. A handler is
  modelled as a function from its request data and the collection to its response and the
  collection afterwards. Everything a handler obtains from outside the repository (the
  clock, the outcome of a store call, Cloudinary, the password hash, the regular
  expression engine of the store) is a field of an environment record, so that a theorem
  quantifies over every behaviour of these collaborators.

  A timestamp is a \<open>datetime\<close>, modelled as the integer number of microseconds since
  \<open>datetime.min\<close> (0001-01-01T00:00:00), the resolution of \<open>datetime\<close>; a
  \<open>timedelta\<close> is a number of microseconds. A \<open>datetime\<close> lies between
  \<open>datetime.min\<close> and \<open>datetime.max\<close> (9999-12-31T23:59:59.999999); an addition that
  leaves this range raises \<open>OverflowError\<close>.
\<close>

type_synonym time = int

definition timedelta_days :: "int \<Rightarrow> int" where
  "timedelta_days d = d * 86400000000"

definition timedelta_hours :: "int \<Rightarrow> int" where
  "timedelta_hours h = h * 3600000000"

definition timedelta_minutes :: "int \<Rightarrow> int" where
  "timedelta_minutes m = m * 60000000"

text \<open>
  \<open>datetime.max\<close>: the 3652059 days from year 1 to year 9999, less one microsecond.
\<close>

definition datetime_max :: time where
  "datetime_max = 3652059 * 86400000000 - 1"

definition datetime_ok :: "time \<Rightarrow> bool" where
  "datetime_ok t = (0 \<le> t \<and> t \<le> datetime_max)"

text \<open>
  The store keeps a \<open>datetime\<close> as a BSON date, a whole number of milliseconds:
  \<open>pymongo\<close> drops the microseconds below the millisecond when it encodes a value,
  for a document it writes and for an operand of a query alike. A date read back from the
  store is a whole number of milliseconds.
\<close>

definition bson_date :: "time \<Rightarrow> time" where
  "bson_date t = (t div 1000) * 1000"

subsection \<open>Double precision\<close>

text \<open>
  Python's \<open>float\<close> is IEEE 754 binary64, and a division gives the quotient rounded to
  the nearest \<open>float\<close>, ties to the even significand. \<open>to_double\<close> rounds a rational to
  53 significant bits in this way. The exponent is not bounded: the quotients that occur
  here (a difference of two \<open>datetime\<close>s, in seconds and in minutes) are far inside the
  normal range of binary64, where the two agree.

  \<open>float_exp x\<close> is the exponent of the unit in the last place of \<open>x\<close>:
  \<open>2 ^ 52 \<le> \<bar>x\<bar> / 2 powi float_exp x < 2 ^ 53\<close>.
\<close>

definition round_half_even :: "rat \<Rightarrow> int" where
  "round_half_even r =
     (let f = \<lfloor>r\<rfloor>; d = r - of_int f
      in if d < 1 / 2 then f
         else if 1 / 2 < d then f + 1
         else if even f then f else f + 1)"

definition float_exp :: "rat \<Rightarrow> int" where
  "float_exp x =
     (let (p, q) = quotient_of \<bar>x\<bar>;
          k = bitlen p - bitlen q
      in (if 2 powi k \<le> \<bar>x\<bar> then k else k - 1) - 52)"

definition to_double :: "rat \<Rightarrow> rat" where
  "to_double x =
     (if x = 0 then 0
      else of_int (round_half_even (x / 2 powi float_exp x)) * 2 powi float_exp x)"

text \<open>
  \<open>td.total_seconds() / 60\<close>: \<open>total_seconds\<close> divides the microseconds of the
  \<open>timedelta\<close> by \<open>10 ** 6\<close> (an integer division into a \<open>float\<close>, rounded once),
  and the quotient by 60 is rounded again.
\<close>

definition total_minutes :: "int \<Rightarrow> rat" where
  "total_minutes td = to_double (to_double (of_int td / 1000000) / 60)"

text \<open>
  The exceptions the handlers can meet; \<open>str_exn\<close> is Python's \<open>str(e)\<close>.
  \<open>py_repr\<close> is \<open>repr\<close> of a string that has no quote, backslash or control character.
\<close>

datatype exn =
    InvalidId string
  | ValueError string
  | OverflowError string
  | PyMongoError string
  | CloudinaryError string

fun str_exn :: "exn \<Rightarrow> string" where
  "str_exn (InvalidId m) = m"
| "str_exn (ValueError m) = m"
| "str_exn (OverflowError m) = m"
| "str_exn (PyMongoError m) = m"
| "str_exn (CloudinaryError m) = m"

definition py_repr :: "string \<Rightarrow> string" where
  "py_repr s = [CHR 0x27] @ s @ [CHR 0x27]"



text \<open>
  \<open>dt + td\<close> on a \<open>datetime\<close>, and \<open>timedelta(days=d)\<close> on an integer: a
  \<open>timedelta\<close> holds at most 999999999 days in either direction.
\<close>

definition datetime_add :: "time \<Rightarrow> int \<Rightarrow> exn + time" where
  "datetime_add t td =
     (if datetime_ok (t + td) then Inr (t + td)
      else Inl (OverflowError ''date value out of range''))"


text \<open>
  A response is the pair \<open>(jsonify(body), code)\<close> that a handler returns. \<open>JTime\<close>
  stands for a \<open>datetime\<close> value inside a body.
\<close>

datatype json =
    JNull
  | JBool bool
  | JInt int
  | JStr string
  | JTime time
  | JList "json list"
  | JObj "(string \<times> json) list"

type_synonym response = "json \<times> nat"

text \<open>
  The pattern \<open>except Exception as e: return jsonify({'success': False, 'error': str(e)}), 500\<close>
  that closes the handlers of \<open>users.py\<close> and \<open>sponsored_ads.py\<close>.
\<close>

definition server_error :: "exn \<Rightarrow> response" where
  "server_error e = (JObj [(''success'', JBool False), (''error'', JStr (str_exn e))], 500)"

fun json_get :: "string \<Rightarrow> json \<Rightarrow> json option" where
  "json_get k (JObj kvs) = map_of kvs k"
| "json_get k _ = None"

subsection \<open>Object identifiers\<close>

text \<open>
  \<open>ObjectId(s)\<close> of \<open>bson\<close> accepts a string of 24 hexadecimal digits and raises
  \<open>InvalidId\<close> otherwise. The identifier is the 12 bytes the digits denote, so two
  strings that differ in letter case give the same identifier: an identifier is kept as
  its lower-case hexadecimal form, which is also what \<open>str\<close> returns.
\<close>

type_synonym object_id = string

definition ascii_lower :: "char \<Rightarrow> char" where
  "ascii_lower c =
     (case map_of (zip ''ABCDEFGHIJKLMNOPQRSTUVWXYZ'' ''abcdefghijklmnopqrstuvwxyz'') c of
        Some l \<Rightarrow> l
      | None \<Rightarrow> c)"

definition is_hex_digit :: "char \<Rightarrow> bool" where
  "is_hex_digit c = (c \<in> set ''0123456789abcdefABCDEF'')"

definition ObjectId_is_valid :: "string \<Rightarrow> bool" where
  "ObjectId_is_valid s = (length s = 24 \<and> list_all is_hex_digit s)"

definition ObjectId :: "string \<Rightarrow> exn + object_id" where
  "ObjectId s =
     (if ObjectId_is_valid s then Inr (map ascii_lower s)
      else Inl (InvalidId (py_repr s @ '' is not a valid ObjectId, it must be a 12-byte input or a 24-character hex string'')))"

subsection \<open>Collections\<close>

text \<open>
  A collection is the list of its documents in natural order. Every document carries its
  \<open>_id\<close> (the field \<open>doc_id\<close>); the store keeps the identifiers of a collection
  distinct, which theorems that look a document up by identifier assume as
  \<open>distinct (map doc_id db)\<close>.

  The operations of \<open>pymongo\<close> the handlers use, with the filter as a predicate and the
  \<open>$set\<close> update as a function on documents.
\<close>

record doc =
  doc_id :: object_id

definition find_one :: "('a \<Rightarrow> bool) \<Rightarrow> 'a list \<Rightarrow> 'a option" where
  "find_one flt db = List.find flt db"

fun update_one :: "('a \<Rightarrow> bool) \<Rightarrow> ('a \<Rightarrow> 'a) \<Rightarrow> 'a list \<Rightarrow> 'a list" where
  "update_one flt upd [] = []"
| "update_one flt upd (x # xs) = (if flt x then upd x # xs else x # update_one flt upd xs)"

definition update_many :: "('a \<Rightarrow> bool) \<Rightarrow> ('a \<Rightarrow> 'a) \<Rightarrow> 'a list \<Rightarrow> 'a list" where
  "update_many flt upd db = map (\<lambda>x. if flt x then upd x else x) db"

text \<open>\<open>modified_count\<close> of an \<open>update_many\<close>: the matched documents the update changes.\<close>

definition modified_count :: "('a \<Rightarrow> bool) \<Rightarrow> ('a \<Rightarrow> 'a) \<Rightarrow> 'a list \<Rightarrow> nat" where
  "modified_count flt upd db = length (filter (\<lambda>x. flt x \<and> upd x \<noteq> x) db)"

fun delete_one :: "('a \<Rightarrow> bool) \<Rightarrow> 'a list \<Rightarrow> 'a list" where
  "delete_one flt [] = []"
| "delete_one flt (x # xs) = (if flt x then xs else x # delete_one flt xs)"

definition deleted_count :: "('a \<Rightarrow> bool) \<Rightarrow> 'a list \<Rightarrow> nat" where
  "deleted_count flt db = (if \<exists>x \<in> set db. flt x then 1 else 0)"

text \<open>
  \<open>find(flt).sort(key, -1)\<close>: the matching documents by descending key. The order the
  store gives to documents with equal keys is not specified; the model keeps their
  natural order.
\<close>

definition find_sort_desc :: "('a \<Rightarrow> bool) \<Rightarrow> ('a \<Rightarrow> int) \<Rightarrow> 'a list \<Rightarrow> 'a list" where
  "find_sort_desc flt key db = sort_key (\<lambda>x. - key x) (filter flt db)"

section \<open>Sponsored ads (\<open>sponsored_ads.py\<close>)\<close>

text \<open>
  The ad document as \<open>create_sponsored_ad\<close> builds it. The four upload fields are present
  only when the file was uploaded.
\<close>

record ad = doc +
  title :: string
  description :: string
  sponsor_name :: string
  whatsapp_number :: string
  created_at :: time
  expires_at :: time
  is_active :: bool
  sponsor_logo_url :: "string option"
  sponsor_logo_public_id :: "string option"
  ad_image_url :: "string option"
  ad_image_public_id :: "string option"

text \<open>An uploaded file; a \<open>FileStorage\<close> is truthy when its filename is not empty.\<close>

record upload_file =
  filename :: string
  content :: string

subsection \<open>Environments\<close>

text \<open>
  \<open>db_raises n\<close>: the exception that the \<open>n\<close>-th call of the running handler to the
  store raises, if that call raises (the connection is lost, the server rejects the
  command); \<open>None\<close> when the call succeeds.
\<close>

record store_env =
  db_raises :: "nat \<Rightarrow> exn option"

text \<open>
  Cloudinary:
  \<^item> \<open>cloudinary_upload file folder\<close>: \<open>(secure_url, public_id)\<close> of the reply, or the
  exception \<open>cloudinary.uploader.upload\<close> raises;
  \<^item> \<open>cloudinary_destroy public_id\<close>: the \<open>result\<close> entry of the reply (\<open>ok\<close>,
  \<open>not found\<close>), or the exception \<open>cloudinary.uploader.destroy\<close> raises (the service
  cannot be reached or rejects the call).
\<close>

record cloud_env = store_env +
  cloudinary_upload :: "upload_file \<Rightarrow> string \<Rightarrow> exn + string \<times> string"
  cloudinary_destroy :: "string \<Rightarrow> exn + string"

text \<open>
  The ads module: \<open>utcnow\<close> is what \<open>datetime.utcnow()\<close> returns during the call (a
  clock reading at least an hour before \<open>datetime.max\<close>, so that \<open>get_wat_time\<close>
  returns), and \<open>new_ObjectId\<close> the identifier that \<open>insert_one\<close> gives the new
  document.
\<close>

record ads_env = cloud_env +
  utcnow :: time
  new_ObjectId :: object_id

definition get_wat_time :: "ads_env \<Rightarrow> time" where
  "get_wat_time env = utcnow env + timedelta_hours 1"

subsection \<open>Reading the form\<close>











subsection \<open>The handlers\<close>


text \<open>The body of a listing: the document with \<open>_id\<close> turned into a string.\<close>

definition opt_entry :: "string \<Rightarrow> string option \<Rightarrow> (string \<times> json) list" where
  "opt_entry k v = (case v of None \<Rightarrow> [] | Some s \<Rightarrow> [(k, JStr s)])"

definition ad_json :: "ad \<Rightarrow> json" where
  "ad_json a = JObj ([(''_id'', JStr (doc_id a)),
      (''title'', JStr (title a)),
      (''description'', JStr (description a)),
      (''sponsor_name'', JStr (sponsor_name a)),
      (''whatsapp_number'', JStr (whatsapp_number a)),
      (''created_at'', JTime (created_at a)),
      (''expires_at'', JTime (expires_at a)),
      (''is_active'', JBool (is_active a))]
      @ opt_entry ''sponsor_logo_url'' (sponsor_logo_url a)
      @ opt_entry ''sponsor_logo_public_id'' (sponsor_logo_public_id a)
      @ opt_entry ''ad_image_url'' (ad_image_url a)
      @ opt_entry ''ad_image_public_id'' (ad_image_public_id a))"

definition get_active_ads :: "ads_env \<Rightarrow> ad list \<Rightarrow> response" where
  "get_active_ads env db =
     (let current_time = get_wat_time env in
      case db_raises env 0 of
        Some e \<Rightarrow> server_error e
      | None \<Rightarrow>
          let active_ads =
                find_sort_desc (\<lambda>a. is_active a = True \<and> expires_at a > current_time) created_at db;
              ads_list = map ad_json active_ads
          in (JObj [(''success'', JBool True), (''ads'', JList ads_list)], 200))"

text \<open>
  One of the two \<open>cloudinary.uploader.destroy\<close> calls of \<open>delete_ad\<close>: made when the
  document has the public identifier; the reply is dropped, an exception is not caught here.
\<close>

definition destroy_if_present :: "'a cloud_env_scheme \<Rightarrow> string option \<Rightarrow> exn + unit" where
  "destroy_if_present env public_id =
     (case public_id of
        None \<Rightarrow> Inr ()
      | Some p \<Rightarrow> (case cloudinary_destroy env p of Inl e \<Rightarrow> Inl e | Inr r \<Rightarrow> Inr ()))"

definition delete_ad :: "ads_env \<Rightarrow> string \<Rightarrow> ad list \<Rightarrow> response \<times> ad list" where
  "delete_ad env ad_id db =
     (case ObjectId ad_id of
        Inl e \<Rightarrow> (server_error e, db)
      | Inr oid \<Rightarrow>
          (case db_raises env 0 of
             Some e \<Rightarrow> (server_error e, db)
           | None \<Rightarrow>
               (case find_one (\<lambda>a. doc_id a = oid) db of
                  None \<Rightarrow> ((JObj [(''success'', JBool False), (''error'', JStr ''Ad not found'')], 404), db)
                | Some ad \<Rightarrow>
                    (case destroy_if_present env (sponsor_logo_public_id ad) of
                       Inl e \<Rightarrow> (server_error e, db)
                     | Inr u \<Rightarrow>
                         (case destroy_if_present env (ad_image_public_id ad) of
                            Inl e \<Rightarrow> (server_error e, db)
                          | Inr u' \<Rightarrow>
                              (case db_raises env 1 of
                                 Some e \<Rightarrow> (server_error e, db)
                               | None \<Rightarrow>
                                   ((JObj [(''success'', JBool True), (''message'', JStr ''Ad deleted successfully'')], 200),
                                    delete_one (\<lambda>a. doc_id a = oid) db)))))))"

text \<open>
  The periodic sweep. \<open>check_expired_ads_try\<close> is its \<open>try\<close> block: the exception it
  raises, if any, and the lines it prints, with the collection as the block leaves it.
  \<open>check_expired_ads\<close> adds the \<open>except Exception\<close> clause, which prints and returns.
\<close>

datatype log_line =
    Deactivated nat
  | Error_in_ad_expiration_check string
  | Status_check_failed string

definition check_expired_ads_try :: "ads_env \<Rightarrow> ad list \<Rightarrow> (exn + log_line list) \<times> ad list" where
  "check_expired_ads_try env db =
     (let current_time = get_wat_time env in
      case db_raises env 0 of
        Some e \<Rightarrow> (Inl e, db)
      | None \<Rightarrow>
          let flt = (\<lambda>a. expires_at a \<le> current_time \<and> is_active a = True);
              upd = (\<lambda>a. a\<lparr>is_active := False\<rparr>);
              n = modified_count flt upd db
          in (Inr (if n > 0 then [Deactivated n] else []), update_many flt upd db))"

definition check_expired_ads :: "ads_env \<Rightarrow> ad list \<Rightarrow> (exn + log_line list) \<times> ad list" where
  "check_expired_ads env db =
     (case check_expired_ads_try env db of
        (Inl e, db') \<Rightarrow> (Inr [Error_in_ad_expiration_check (str_exn e)], db')
      | (Inr printed, db') \<Rightarrow> (Inr printed, db'))"


definition extend_ad :: "ads_env \<Rightarrow> string \<Rightarrow> ad list \<Rightarrow> response \<times> ad list" where
  "extend_ad env ad_id db =
     (case ObjectId ad_id of
        Inl e \<Rightarrow> (server_error e, db)
      | Inr oid \<Rightarrow>
          (case db_raises env 0 of
             Some e \<Rightarrow> (server_error e, db)
           | None \<Rightarrow>
               (case find_one (\<lambda>a. doc_id a = oid) db of
                  None \<Rightarrow> ((JObj [(''success'', JBool False), (''error'', JStr ''Ad not found'')], 404), db)
                | Some ad \<Rightarrow>
                    (case datetime_add (expires_at ad) (timedelta_days 7) of
                       Inl e \<Rightarrow> (server_error e, db)
                     | Inr new_expires_at \<Rightarrow>
                         (case db_raises env 1 of
                            Some e \<Rightarrow> (server_error e, db)
                          | None \<Rightarrow>
                              ((JObj [(''success'', JBool True), (''message'', JStr ''Ad extended successfully'')], 200),
                               update_one (\<lambda>a. doc_id a = oid)
                                 (\<lambda>a. a\<lparr>expires_at := bson_date new_expires_at, is_active := True\<rparr>)
                                 db))))))"

section \<open>Users and presence (\<open>users.py\<close>)\<close>

text \<open>
  The user document as \<open>create_user\<close> builds it and \<open>user_heartbeat\<close> extends it. A
  field the handlers read with \<open>user[k]\<close> is a field of the record; a field they read
  with \<open>user.get(k)\<close> is optional. For the timestamps \<open>None\<close> is an absent key or a
  stored null, which \<open>user.get(k)\<close> does not tell apart. For \<open>status\<close>,
  \<open>password\<close>, \<open>email\<close> and \<open>whatsapp\<close>, which are read with a default,
  \<open>None\<close> is the absent key only: a document that holds a null in one of them is not
  a value of this record (\<open>create_user\<close> writes strings there, and no handler writes a
  null). The status is the string the store holds.
\<close>

record user = doc +
  first_name :: string
  last_name :: string
  nickname :: string
  department :: string
  level :: string
  email :: "string option"
  whatsapp :: "string option"
  password :: "string option"
  last_login :: "time option"
  status :: "string option"
  updated_at :: "time option"
  last_active :: "time option"
  last_seen :: "time option"

text \<open>\<open>STATUS_CONFIG\<close>, handed to \<open>init_users_routes\<close>: the two thresholds in minutes.\<close>

record status_config =
  IDLE_THRESHOLD :: int
  OFFLINE_THRESHOLD :: int

text \<open>
  The environment of a call into the users module:
  \<^item> \<open>wat_time_func n\<close>: what the \<open>n\<close>-th call of \<open>get_wat_time()\<close> in the handler returns
  (the function is handed to \<open>init_users_routes\<close>);
  \<^item> \<open>STATUS_CONFIG\<close>: the thresholds;
  \<^item> \<open>regex_search_i pattern s\<close>: whether the store finds \<open>{'$regex': pattern, '$options': 'i'}\<close>
  in the string \<open>s\<close>;
  \<^item> \<open>check_password_hash hash password\<close> of \<open>werkzeug\<close>;
  \<^item> \<open>jwt_encode user_id nickname exp\<close>: the signed token;
  \<^item> \<open>jwt_utcnow\<close>: \<open>datetime.utcnow()\<close> when the token is made;
  \<^item> \<open>isoformat\<close>: the text of a \<open>datetime\<close>.
\<close>

record users_env = store_env +
  wat_time_func :: "nat \<Rightarrow> time"
  STATUS_CONFIG :: status_config
  regex_search_i :: "string \<Rightarrow> string \<Rightarrow> bool"
  check_password_hash :: "string \<Rightarrow> string \<Rightarrow> bool"
  jwt_encode :: "string \<Rightarrow> string \<Rightarrow> time \<Rightarrow> string"
  jwt_utcnow :: time
  isoformat :: "time \<Rightarrow> string"

definition opt_json :: "('a \<Rightarrow> json) \<Rightarrow> 'a option \<Rightarrow> json" where
  "opt_json f v = (case v of None \<Rightarrow> JNull | Some x \<Rightarrow> f x)"

definition get_default :: "'a option \<Rightarrow> 'a \<Rightarrow> 'a" where
  "get_default v d = (case v of None \<Rightarrow> d | Some x \<Rightarrow> x)"

definition sanitize_user_data :: "user \<Rightarrow> json" where
  "sanitize_user_data u = JObj [
      (''id'', JStr (doc_id u)),
      (''first_name'', JStr (first_name u)),
      (''last_name'', JStr (last_name u)),
      (''nickname'', JStr (nickname u)),
      (''department'', JStr (department u)),
      (''level'', JStr (level u)),
      (''email'', JStr (get_default (email u) [])),
      (''whatsapp'', JStr (get_default (whatsapp u) [])),
      (''last_login'', opt_json JTime (last_login u)),
      (''status'', JStr (get_default (status u) ''active'')),
      (''updated_at'', opt_json JTime (updated_at u))]"

text \<open>
  The body of \<open>signin\<close>: \<open>None\<close> is a request without a JSON object, and an entry is
  \<open>None\<close> when the object lacks the key.
\<close>

record signin_data =
  data_nickname :: "string option"
  data_password :: "string option"

definition signin :: "users_env \<Rightarrow> signin_data option \<Rightarrow> user list \<Rightarrow> response \<times> user list" where
  "signin env data db =
     (case data of
        None \<Rightarrow> ((JObj [(''success'', JBool False), (''error'', JStr ''Nickname and password are required'')], 400), db)
      | Some d \<Rightarrow>
          (case (data_nickname d, data_password d) of
             (Some nickname', Some password') \<Rightarrow>
               (case db_raises env 0 of
                  Some e \<Rightarrow> (server_error e, db)
                | None \<Rightarrow>
                    (case find_one (\<lambda>u. regex_search_i env (''^'' @ nickname' @ ''$'') (nickname u)) db of
                       None \<Rightarrow> ((JObj [(''success'', JBool False), (''error'', JStr ''Invalid credentials'')], 401), db)
                     | Some user \<Rightarrow>
                         if \<not> check_password_hash env (get_default (password user) []) password'
                         then ((JObj [(''success'', JBool False), (''error'', JStr ''Invalid credentials'')], 401), db)
                         else
                           let token = jwt_encode env (doc_id user) (nickname user)
                                         (jwt_utcnow env + timedelta_hours 2)
                           in (case db_raises env 1 of
                                 Some e \<Rightarrow> (server_error e, db)
                               | None \<Rightarrow>
                                   ((JObj [(''success'', JBool True),
                                           (''token'', JStr token),
                                           (''user'', sanitize_user_data user)], 200),
                                    update_one (\<lambda>u. doc_id u = doc_id user)
                                      (\<lambda>u. u\<lparr>last_login := Some (bson_date (wat_time_func env 0))\<rparr>) db))))
           | _ \<Rightarrow> ((JObj [(''success'', JBool False), (''error'', JStr ''Nickname and password are required'')], 400), db)))"

text \<open>
  \<open>user_heartbeat\<close>, with \<open>request.user_id\<close> as the decorator \<open>requires_auth\<close> set it.
  The two timestamps come from two calls of \<open>get_wat_time()\<close> and are stored as BSON
  dates.
\<close>

definition user_heartbeat :: "users_env \<Rightarrow> string \<Rightarrow> user list \<Rightarrow> response \<times> user list" where
  "user_heartbeat env request_user_id db =
     (case ObjectId request_user_id of
        Inl e \<Rightarrow> (server_error e, db)
      | Inr oid \<Rightarrow>
          let last_active' = wat_time_func env 0;
              last_seen' = wat_time_func env 1
          in (case db_raises env 0 of
                Some e \<Rightarrow> (server_error e, db)
              | None \<Rightarrow>
                  ((JObj [(''success'', JBool True)], 200),
                   update_one (\<lambda>u. doc_id u = oid)
                     (\<lambda>u. u\<lparr>status := Some ''online'',
                            last_active := Some (bson_date last_active'),
                            last_seen := Some (bson_date last_seen')\<rparr>) db)))"

text \<open>
  \<open>{'last_active': {'$lt': t}}\<close>: the operand reaches the store as a BSON date, so the
  stored value is compared with \<open>t\<close> cut to the millisecond; a document without the
  field does not match.
\<close>

definition lt_time :: "time option \<Rightarrow> time \<Rightarrow> bool" where
  "lt_time v t = (case v of None \<Rightarrow> False | Some x \<Rightarrow> x < bson_date t)"

text \<open>
  The periodic sweep: \<open>check_user_status_try\<close> is the \<open>try\<close> block (the exception it
  raises, if any, with the collection as the block leaves it), \<open>check_user_status\<close> adds
  the \<open>except Exception\<close> clause, which prints and returns. The two threshold instants
  are taken to be \<open>datetime\<close>s: \<open>sweep_instants_ok\<close> says that the clock reading
  and both instants lie in the range of \<open>datetime\<close>, so that neither subtraction
  overflows.
\<close>

definition sweep_instants_ok :: "time \<Rightarrow> status_config \<Rightarrow> bool" where
  "sweep_instants_ok now cfg =
     (datetime_ok now
      \<and> datetime_ok (now - timedelta_minutes (IDLE_THRESHOLD cfg))
      \<and> datetime_ok (now - timedelta_minutes (OFFLINE_THRESHOLD cfg)))"


definition check_user_status_try :: "users_env \<Rightarrow> user list \<Rightarrow> (exn + log_line list) \<times> user list" where
  "check_user_status_try env db =
     (let now = wat_time_func env 0;
          idle_threshold = now - timedelta_minutes (IDLE_THRESHOLD (STATUS_CONFIG env));
          offline_threshold = now - timedelta_minutes (OFFLINE_THRESHOLD (STATUS_CONFIG env))
      in case db_raises env 0 of
           Some e \<Rightarrow> (Inl e, db)
         | None \<Rightarrow>
             let db1 = update_many
                         (\<lambda>u. status u = Some ''online'' \<and> lt_time (last_active u) idle_threshold)
                         (\<lambda>u. u\<lparr>status := Some ''idle''\<rparr>) db
             in (case db_raises env 1 of
                   Some e \<Rightarrow> (Inl e, db1)
                 | None \<Rightarrow>
                     (Inr [],
                      update_many
                        (\<lambda>u. (status u = Some ''online'' \<or> status u = Some ''idle'')
                              \<and> lt_time (last_active u) offline_threshold)
                        (\<lambda>u. u\<lparr>status := Some ''offline''\<rparr>) db1)))"

definition check_user_status :: "users_env \<Rightarrow> user list \<Rightarrow> (exn + log_line list) \<times> user list" where
  "check_user_status env db =
     (case check_user_status_try env db of
        (Inl e, db') \<Rightarrow> (Inr [Status_check_failed (str_exn e)], db')
      | (Inr printed, db') \<Rightarrow> (Inr printed, db'))"

text \<open>
  \<open>get_user_status\<close>. The \<open>find_one\<close> projects the document onto \<open>status\<close>,
  \<open>last_active\<close>, \<open>first_name\<close> and \<open>department\<close>: the handler reads no other field.
\<close>

record user_projection =
  proj_status :: "string option"
  proj_last_active :: "time option"
  proj_first_name :: string
  proj_department :: string

definition project_user :: "user \<Rightarrow> user_projection" where
  "project_user u = \<lparr>proj_status = status u, proj_last_active = last_active u,
                     proj_first_name = first_name u, proj_department = department u\<rparr>"

definition status_body :: "users_env \<Rightarrow> string \<Rightarrow> user_projection \<Rightarrow> json" where
  "status_body env status' user = JObj [
      (''success'', JBool True),
      (''status'', JStr status'),
      (''last_seen'', opt_json (\<lambda>t. JStr (isoformat env t)) (proj_last_active user)),
      (''first_name'', JStr (proj_first_name user)),
      (''department'', JStr (proj_department user))]"

definition get_user_status :: "users_env \<Rightarrow> string \<Rightarrow> user list \<Rightarrow> response \<times> user list" where
  "get_user_status env user_id db =
     (case ObjectId user_id of
        Inl e \<Rightarrow> (server_error e, db)
      | Inr oid \<Rightarrow>
          (case db_raises env 0 of
             Some e \<Rightarrow> (server_error e, db)
           | None \<Rightarrow>
               (case map_option project_user (find_one (\<lambda>u. doc_id u = oid) db) of
                  None \<Rightarrow> ((JObj [(''success'', JBool False), (''error'', JStr ''User not found'')], 404), db)
                | Some user \<Rightarrow>
                    let status0 = get_default (proj_status user) ''offline'' in
                    (case proj_last_active user of
                       None \<Rightarrow> ((status_body env status0 user, 200), db)
                     | Some last_active' \<Rightarrow>
                         let inactive_for = total_minutes (wat_time_func env 0 - last_active');
                             status' =
                               (if inactive_for > of_int (OFFLINE_THRESHOLD (STATUS_CONFIG env)) then ''offline''
                                else if inactive_for > of_int (IDLE_THRESHOLD (STATUS_CONFIG env)) then ''idle''
                                else status0)
                         in if Some status' \<noteq> proj_status user
                            then (case db_raises env 1 of
                                    Some e \<Rightarrow> (server_error e, db)
                                  | None \<Rightarrow>
                                      ((status_body env status' user, 200),
                                       update_one (\<lambda>u. doc_id u = oid) (\<lambda>u. u\<lparr>status := Some status'\<rparr>) db))
                            else ((status_body env status' user, 200), db)))))"

subsection \<open>A matcher for the patterns of \<open>signin\<close>\<close>

text \<open>
  \<open>signin\<close> hands the store the pattern \<open>^nickname$\<close> with the option \<open>i\<close>. The store
  matches it with PCRE. \<open>pcre_search_i\<close> follows PCRE on the patterns whose only special
  characters are a leading \<open>^\<close>, a trailing \<open>$\<close> and dots: a dot matches any character
  but a newline, any other character matches itself in either letter case, \<open>$\<close> matches
  at the end of the string or before a final newline.
\<close>

fun match_here :: "string \<Rightarrow> string \<Rightarrow> bool" where
  "match_here [] s = True"
| "match_here [CHR ''$''] s = (s = [] \<or> s = [CHR 0x0A])"
| "match_here (p # ps) [] = False"
| "match_here (p # ps) (c # cs) =
     ((if p = CHR ''.'' then c \<noteq> CHR 0x0A else ascii_lower p = ascii_lower c)
      \<and> match_here ps cs)"

definition pcre_search_i :: "string \<Rightarrow> string \<Rightarrow> bool" where
  "pcre_search_i pattern s =
     (case pattern of
        CHR ''^'' # ps \<Rightarrow> match_here ps s
      | _ \<Rightarrow> list_ex (\<lambda>i. match_here pattern (drop i s)) [0..<Suc (length s)])"

section \<open>Faculty wear (\<open>faculty_wear.py\<close>): deleting a listing\<close>

text \<open>
  Of a listing, \<open>delete_wear\<close> reads the identifier and \<open>image_url\<close>; the other fields
  stay in the extension of the record.
\<close>

record wear = doc +
  image_url :: "string option"

fun split_on :: "char \<Rightarrow> string \<Rightarrow> string list" where
  "split_on c [] = [[]]"
| "split_on c (x # xs) =
     (if x = c then [] # split_on c xs
      else (case split_on c xs of
              [] \<Rightarrow> [[x]]
            | w # ws \<Rightarrow> (x # w) # ws))"

definition is_substring :: "string \<Rightarrow> string \<Rightarrow> bool" where
  "is_substring sub s = list_ex (\<lambda>i. take (length sub) (drop i s) = sub) [0..<Suc (length s)]"

text \<open>
  \<open>delete_from_cloudinary\<close>: every exception inside (an index out of range, a failing
  \<open>destroy\<close>) is caught and gives \<open>False\<close>.
\<close>

definition delete_from_cloudinary :: "'a cloud_env_scheme \<Rightarrow> string option \<Rightarrow> bool" where
  "delete_from_cloudinary env image_url' =
     (case image_url' of
        None \<Rightarrow> False
      | Some url \<Rightarrow>
          if url = [] \<or> \<not> is_substring ''cloudinary.com'' url then False
          else
            let parts = split_on CHR ''/'' url in
            if length parts < 2 then False
            else
              let second_last = parts ! (length parts - 2);
                  folder = (if second_last \<noteq> ''upload'' then Some second_last else None);
                  public_id = hd (split_on CHR ''.'' (last parts));
                  public_id' = (case folder of
                                  None \<Rightarrow> public_id
                                | Some f \<Rightarrow> if f = [] then public_id else f @ ''/'' @ public_id)
              in (case cloudinary_destroy env public_id' of
                    Inl e \<Rightarrow> False
                  | Inr r \<Rightarrow> r = ''ok''))"

definition delete_wear :: "'a cloud_env_scheme \<Rightarrow> string \<Rightarrow> 'b wear_scheme list \<Rightarrow> response \<times> 'b wear_scheme list" where
  "delete_wear env item_id db =
     (if \<not> ObjectId_is_valid item_id
      then ((JObj [(''status'', JStr ''error''), (''message'', JStr ''Invalid product ID format'')], 400), db)
      else
        let oid = map ascii_lower item_id in
        (case db_raises env 0 of
           Some e \<Rightarrow> ((JObj [(''status'', JStr ''error''), (''message'', JStr ''Failed to delete product'')], 500), db)
         | None \<Rightarrow>
             (case find_one (\<lambda>w. doc_id w = oid) db of
                None \<Rightarrow> ((JObj [(''status'', JStr ''error''), (''message'', JStr ''Product not found'')], 404), db)
              | Some item \<Rightarrow>
                  let deleted = (case image_url item of
                                   None \<Rightarrow> False
                                 | Some url \<Rightarrow>
                                     if url \<noteq> [] \<and> is_substring ''cloudinary.com'' url
                                     then delete_from_cloudinary env (image_url item)
                                     else False)
                  in (case db_raises env 1 of
                        Some e \<Rightarrow> ((JObj [(''status'', JStr ''error''), (''message'', JStr ''Failed to delete product'')], 500), db)
                      | None \<Rightarrow>
                          if deleted_count (\<lambda>w. doc_id w = oid) db = 0
                          then ((JObj [(''status'', JStr ''error''), (''message'', JStr ''Product not found'')], 404),
                                delete_one (\<lambda>w. doc_id w = oid) db)
                          else ((JObj [(''status'', JStr ''success''), (''message'', JStr ''Product deleted successfully'')], 200),
                                delete_one (\<lambda>w. doc_id w = oid) db)))))"

section \<open>Reading a listing, and sample data\<close>

text \<open>The \<open>ads\<close> entry of the body of a listing response.\<close>

fun listed :: "response \<Rightarrow> json list" where
  "listed (body, code) = (case json_get ''ads'' body of Some (JList js) \<Rightarrow> js | _ \<Rightarrow> [])"

text \<open>A small collection of ads and an environment in which no call fails.\<close>

definition ex_ad :: "object_id \<Rightarrow> time \<Rightarrow> time \<Rightarrow> bool \<Rightarrow> ad" where
  "ex_ad oid created expires active =
     \<lparr>doc_id = oid, title = ''Books'', description = ''Second-hand books'',
      sponsor_name = ''Ada'', whatsapp_number = ''07012345678'',
      created_at = created, expires_at = expires, is_active = active,
      sponsor_logo_url = None, sponsor_logo_public_id = Some ''sponsored_ads/logos/ada'',
      ad_image_url = None, ad_image_public_id = None\<rparr>"

definition ex_ads :: "ad list" where
  "ex_ads = [ex_ad ''65f0a1b2c3d4e5f60718293a'' 100000 900000 True,
             ex_ad ''65f0a1b2c3d4e5f60718293b'' 200000 4000000000 True,
             ex_ad ''65f0a1b2c3d4e5f60718293c'' 300000 5000000000 False]"

definition ex_ads_env :: "time \<Rightarrow> ads_env" where
  "ex_ads_env t =
     \<lparr>db_raises = (\<lambda>n. None),
      cloudinary_upload = (\<lambda>f folder. Inr (''https://res.cloudinary.com/'' @ folder, folder)),
      cloudinary_destroy = (\<lambda>p. Inr ''ok''),
      utcnow = t,
      new_ObjectId = ''65f0a1b2c3d4e5f60718293d''\<rparr>"


text \<open>The same environment with Cloudinary out of reach: every \<open>destroy\<close> raises.\<close>

definition ex_ads_env_unreachable :: ads_env where
  "ex_ads_env_unreachable =
     (ex_ads_env 5000)\<lparr>cloudinary_destroy := (\<lambda>p. Inl (CloudinaryError ''Connection refused''))\<rparr>"

text \<open>Sample users.\<close>

definition ex_user :: "object_id \<Rightarrow> string \<Rightarrow> string option \<Rightarrow> time option \<Rightarrow> time option \<Rightarrow> user" where
  "ex_user oid nick st active seen =
     \<lparr>doc_id = oid, first_name = ''Ada'', last_name = ''Obi'', nickname = nick,
      department = ''CSC'', level = ''400'', email = Some ''ada@example.com'',
      whatsapp = Some ''07012345678'', password = Some ''hash-of-secret-pw'',
      last_login = None, status = st, updated_at = Some 0,
      last_active = active, last_seen = seen\<rparr>"

text \<open>
  Thresholds of 5 and 15 minutes; the clock reads 60 minutes after \<open>datetime.min\<close>
  (3600000000 microseconds) at every call; no store call fails. The sample \<open>isoformat\<close>
  gives the text of the two instants the samples report.
\<close>

definition ex_users_env :: users_env where
  "ex_users_env =
     \<lparr>db_raises = (\<lambda>n. None),
      wat_time_func = (\<lambda>n. 3600000000),
      STATUS_CONFIG = \<lparr>IDLE_THRESHOLD = 5, OFFLINE_THRESHOLD = 15\<rparr>,
      regex_search_i = pcre_search_i,
      check_password_hash = (\<lambda>h p. h = ''hash-of-'' @ p),
      jwt_encode = (\<lambda>uid nick exp. ''token-for-'' @ uid),
      jwt_utcnow = 0,
      isoformat = (\<lambda>t. if t = 0 then ''0001-01-01T00:00:00''
                        else if t = 7000 then ''0001-01-01T00:00:00.007000''
                        else ''later'')\<rparr>"

definition ex_users :: "user list" where
  "ex_users = [ex_user ''65f0a1b2c3d4e5f607182a01'' ''john'' (Some ''online'') (Some 0) (Some 0),
               ex_user ''65f0a1b2c3d4e5f607182a02'' ''mary'' (Some ''online'') (Some 3000000000) (Some 3000000000),
               ex_user ''65f0a1b2c3d4e5f607182a03'' ''tobi'' (Some ''active'') (Some 0) (Some 7000)]"


text \<open>The sample environment of the users module with a failing second store call.\<close>

definition ex_users_env_update_fails :: users_env where
  "ex_users_env_update_fails =
     ex_users_env\<lparr>db_raises := (\<lambda>n. if n = 1 then Some (PyMongoError ''connection closed'') else None)\<rparr>"

text \<open>The characters with a special meaning in a PCRE pattern.\<close>

definition regex_special :: "char \<Rightarrow> bool" where
  "regex_special c = (c \<in> set ''^$.|?*+()[]{}'' \<or> c = CHR 0x5C)"

text \<open>
  An ad whose stored expiry is the last millisecond of the year 9999, as a creation with a
  large \<open>duration_days\<close> leaves it.
\<close>

definition ex_ads_far :: "ad list" where
  "ex_ads_far = [ex_ad ''65f0a1b2c3d4e5f60718293e'' 1000 315537897599999000 True]"

text \<open>
  The sample environment of the users module with another clock and other thresholds, and a
  store holding the single user john, stored as \<open>online\<close> and last active at instant 0.
\<close>

definition ex_users_env_with :: "time \<Rightarrow> int \<Rightarrow> int \<Rightarrow> users_env" where
  "ex_users_env_with now idle offline =
     ex_users_env\<lparr>wat_time_func := (\<lambda>n. now),
                  STATUS_CONFIG := \<lparr>IDLE_THRESHOLD = idle, OFFLINE_THRESHOLD = offline\<rparr>\<rparr>"

definition ex_users_one :: "user list" where
  "ex_users_one = [ex_user ''65f0a1b2c3d4e5f607182a01'' ''john'' (Some ''online'') (Some 0) (Some 0)]"

section \<open>Properties\<close>

lemma set_find_sort_desc: "set (find_sort_desc flt key db) = {x \<in> set db. flt x}"
  by (simp add: find_sort_desc_def)

lemma mset_find_sort_desc: "mset (find_sort_desc flt key db) = filter_mset flt (mset db)"
  by (simp add: find_sort_desc_def)

subsection \<open>Looking a document up by its identifier\<close>

lemma find_one_by_id:
  fixes db :: "'a doc_scheme list"
  assumes "distinct (map doc_id db)" "i < length db"
  shows "find_one (\<lambda>a. doc_id a = doc_id (db ! i)) db = Some (db ! i)"
  using assms unfolding find_one_def
proof (induction db arbitrary: i)
  case Nil
  then show ?case by simp
next
  case (Cons x xs)
  show ?case
  proof (cases i)
    case 0
    then show ?thesis by simp
  next
    case (Suc j)
    with Cons.prems have "doc_id (xs ! j) \<in> set (map doc_id xs)" by simp
    with Cons.prems have "doc_id x \<noteq> doc_id (xs ! j)" by auto
    with Cons Suc show ?thesis by simp
  qed
qed

lemma update_one_by_id:
  fixes db :: "'a doc_scheme list"
  assumes "distinct (map doc_id db)" "i < length db"
  shows "update_one (\<lambda>a. doc_id a = doc_id (db ! i)) upd db = db[i := upd (db ! i)]"
  using assms
proof (induction db arbitrary: i)
  case Nil
  then show ?case by simp
next
  case (Cons x xs)
  show ?case
  proof (cases i)
    case 0
    then show ?thesis by simp
  next
    case (Suc j)
    with Cons.prems have "doc_id (xs ! j) \<in> set (map doc_id xs)" by simp
    with Cons.prems have "doc_id x \<noteq> doc_id (xs ! j)" by auto
    with Cons Suc show ?thesis by simp
  qed
qed

lemma json_get_expires_at: "json_get ''expires_at'' (ad_json a) = Some (JTime (expires_at a))"
  by (simp add: ad_json_def)






subsection \<open>Rounding to double precision, and BSON dates\<close>

text \<open>
  \<open>to_double\<close> respects every bound that is itself a \<open>float\<close> (an integer below
  \<open>2 ^ 53\<close> times a power of two), and leaves such a number unchanged.
\<close>

lemma round_half_even_ge: "of_int N \<le> r \<Longrightarrow> N \<le> round_half_even r"
proof -
  assume "of_int N \<le> r"
  then have "N \<le> \<lfloor>r\<rfloor>" by (simp add: le_floor_iff)
  then show ?thesis by (simp add: round_half_even_def Let_def)
qed

lemma round_half_even_le: "r \<le> of_int N \<Longrightarrow> round_half_even r \<le> N"
proof (cases "r = of_int N")
  case True
  then show ?thesis by (simp add: round_half_even_def Let_def)
next
  case False
  assume "r \<le> of_int N"
  with False have "r < of_int N" by simp
  then have "\<lfloor>r\<rfloor> < N" by (simp add: floor_less_iff)
  then show ?thesis by (simp add: round_half_even_def Let_def)
qed

lemma bitlen_powi:
  assumes "0 < a"
  shows "(2::rat) powi (bitlen a - 1) \<le> of_int a" and "of_int a < (2::rat) powi bitlen a"
proof -
  from bitlen_bounds [OF assms] have b: "2 ^ nat (bitlen a - 1) \<le> a" "a < 2 ^ nat (bitlen a)"
    by simp_all
  from assms have p: "1 \<le> bitlen a" by (auto simp: bitlen_alt_def)
  from b(1) have "(of_int (2 ^ nat (bitlen a - 1)) :: rat) \<le> of_int a"
    by (simp only: of_int_le_iff)
  then show "(2::rat) powi (bitlen a - 1) \<le> of_int a"
    using p by (simp add: power_int_def)
  from b(2) have "(of_int a :: rat) < of_int (2 ^ nat (bitlen a))"
    by (simp only: of_int_less_iff)
  then show "of_int a < (2::rat) powi bitlen a"
    using p by (simp add: power_int_def)
qed

lemma float_exp_bounds:
  assumes "0 < x"
  shows "2 ^ 52 \<le> x / 2 powi float_exp x" and "x / 2 powi float_exp x < 2 ^ 53"
proof -
  obtain p q where pq: "quotient_of x = (p, q)" by (cases "quotient_of x")
  then have q: "0 < q" and x: "x = of_int p / of_int q"
    by (simp_all add: quotient_of_denom_pos quotient_of_div)
  from assms q x have p: "0 < p" by (simp add: zero_less_divide_iff)
  define k where "k = bitlen p - bitlen q"
  define E where "E = (if 2 powi k \<le> x then k else k - 1)"
  have e: "float_exp x = E - 52"
    using assms pq by (simp add: float_exp_def E_def k_def Let_def)
  have lo: "(2::rat) powi (k - 1) < x"
  proof -
    have "(2::rat) powi (k - 1) = 2 powi ((bitlen p - 1) - bitlen q)"
      by (rule arg_cong [where f = "\<lambda>e. 2 powi e"]) (simp add: k_def)
    also have "\<dots> = 2 powi (bitlen p - 1) / 2 powi bitlen q"
      by (rule power_int_diff) simp
    also have "\<dots> < of_int p / of_int q"
    proof (rule frac_less2)
      show "(0::rat) < 2 powi (bitlen p - 1)" by simp
      show "(2::rat) powi (bitlen p - 1) \<le> of_int p" by (rule bitlen_powi(1) [OF p])
      show "(0::rat) < of_int q" using q by simp
      show "(of_int q :: rat) < 2 powi bitlen q" by (rule bitlen_powi(2) [OF q])
    qed
    finally show ?thesis by (simp add: x)
  qed
  have hi: "x < (2::rat) powi (k + 1)"
  proof -
    have "x = of_int p / of_int q" by (rule x)
    also have "\<dots> < 2 powi bitlen p / 2 powi (bitlen q - 1)"
    proof (rule frac_less)
      show "(0::rat) \<le> of_int p" using p by simp
      show "(of_int p :: rat) < 2 powi bitlen p" by (rule bitlen_powi(2) [OF p])
      show "(0::rat) < 2 powi (bitlen q - 1)" by simp
      show "(2::rat) powi (bitlen q - 1) \<le> of_int q" by (rule bitlen_powi(1) [OF q])
    qed
    also have "\<dots> = 2 powi (bitlen p - (bitlen q - 1))"
      by (rule power_int_diff [symmetric]) simp
    also have "\<dots> = (2::rat) powi (k + 1)"
      by (rule arg_cong [where f = "\<lambda>e. 2 powi e"]) (simp add: k_def)
    finally show ?thesis .
  qed
  have E: "(2::rat) powi E \<le> x" "x < (2::rat) powi (E + 1)"
    using lo hi by (auto simp: E_def)
  have s: "x / 2 powi (E - 52) = x / 2 powi E * 2 ^ 52"
    by (simp add: power_int_diff)
  have "1 \<le> x / 2 powi E" using E(1) by (simp add: le_divide_eq)
  then have "1 * 2 ^ 52 \<le> x / 2 powi E * 2 ^ 52" by (intro mult_right_mono) simp_all
  then show "2 ^ 52 \<le> x / 2 powi float_exp x" unfolding e s by simp
  have "x / 2 powi E < 2" using E(2) by (simp add: divide_less_eq power_int_add)
  then have "x / 2 powi E * 2 ^ 52 < 2 * 2 ^ 52" by (intro mult_strict_right_mono) simp_all
  then show "x / 2 powi float_exp x < 2 ^ 53" unfolding e s by simp
qed

lemma scaled_is_int:
  assumes "n < 2 ^ 53" and "2 ^ 52 \<le> (of_int n :: rat) * 2 powi j"
  shows "(of_int n :: rat) * 2 powi j = of_int (n * 2 ^ nat j)"
proof -
  have "0 \<le> j"
  proof (rule ccontr)
    assume "\<not> 0 \<le> j"
    then have "j \<le> - 1" by simp
    then have "(2::rat) powi j \<le> 2 powi (- 1)" by (intro power_int_increasing) simp_all
    moreover have "(2::rat) powi (- 1) = 1 / 2"
      by (simp only: power_int_minus1_right inverse_eq_divide)
    ultimately have h: "(2::rat) powi j \<le> 1 / 2" by (simp only:)
    have "0 < n"
    proof (rule ccontr)
      assume "\<not> 0 < n"
      then have "(of_int n :: rat) \<le> 0" by simp
      moreover have "(0::rat) \<le> 2 powi j" by simp
      ultimately have "(of_int n :: rat) * 2 powi j \<le> 0" by (simp add: mult_nonpos_nonneg)
      with assms(2) show False by simp
    qed
    then have "(of_int n :: rat) * 2 powi j \<le> of_int n * (1 / 2)"
      using h by (intro mult_left_mono) simp_all
    also have "\<dots> < 2 ^ 53 * (1 / 2)"
    proof -
      from assms(1) have "(of_int n :: rat) < of_int (2 ^ 53)" by (simp only: of_int_less_iff)
      then show ?thesis by simp
    qed
    finally show False using assms(2) by simp
  qed
  then show ?thesis by (simp add: power_int_def)
qed

lemma to_double_ge:
  assumes "0 < n" and "n < 2 ^ 53" and "of_int n * 2 powi j \<le> x"
  shows "of_int n * 2 powi j \<le> to_double x"
proof -
  let ?e = "float_exp x" and ?c = "(of_int n :: rat) * 2 powi j"
  have c: "0 < ?c" using assms(1) by (simp add: zero_less_mult_iff)
  with assms(3) have x: "0 < x" by simp
  note b = float_exp_bounds [OF x]
  have u: "(0::rat) < 2 powi ?e" by simp
  have cs: "?c / 2 powi ?e = of_int n * 2 powi (j - ?e)"
    by (simp add: power_int_diff)
  have le: "?c / 2 powi ?e \<le> x / 2 powi ?e"
    using assms(3) u by (simp add: divide_right_mono)
  have "?c / 2 powi ?e \<le> of_int (round_half_even (x / 2 powi ?e))"
  proof (cases "2 ^ 52 \<le> ?c / 2 powi ?e")
    case True
    then have "?c / 2 powi ?e = of_int (n * 2 ^ nat (j - ?e))"
      using scaled_is_int [OF assms(2), of "j - ?e"] by (simp add: cs)
    moreover from this le have "n * 2 ^ nat (j - ?e) \<le> round_half_even (x / 2 powi ?e)"
      by (intro round_half_even_ge) simp
    ultimately show ?thesis by (simp only: of_int_le_iff)
  next
    case False
    have "(of_int (2 ^ 52) :: rat) \<le> x / 2 powi ?e" using b(1) by simp
    then have "2 ^ 52 \<le> round_half_even (x / 2 powi ?e)" by (rule round_half_even_ge)
    then have "(of_int (2 ^ 52) :: rat) \<le> of_int (round_half_even (x / 2 powi ?e))"
      by (simp only: of_int_le_iff)
    with False show ?thesis by simp
  qed
  then have "?c \<le> of_int (round_half_even (x / 2 powi ?e)) * 2 powi ?e"
    using u by (simp add: divide_le_eq)
  with x show ?thesis by (simp add: to_double_def)
qed

lemma to_double_le:
  assumes "0 < x" and "n < 2 ^ 53" and "x \<le> of_int n * 2 powi j"
  shows "to_double x \<le> of_int n * 2 powi j"
proof -
  let ?e = "float_exp x" and ?c = "(of_int n :: rat) * 2 powi j"
  note b = float_exp_bounds [OF assms(1)]
  have u: "(0::rat) < 2 powi ?e" by simp
  have cs: "?c / 2 powi ?e = of_int n * 2 powi (j - ?e)"
    by (simp add: power_int_diff)
  have le: "x / 2 powi ?e \<le> ?c / 2 powi ?e"
    using assms(3) u by (simp add: divide_right_mono)
  have "of_int (round_half_even (x / 2 powi ?e)) \<le> ?c / 2 powi ?e"
  proof (cases "?c / 2 powi ?e < 2 ^ 53")
    case True
    from b(1) le have "2 ^ 52 \<le> ?c / 2 powi ?e" by simp
    then have "?c / 2 powi ?e = of_int (n * 2 ^ nat (j - ?e))"
      using scaled_is_int [OF assms(2), of "j - ?e"] by (simp add: cs)
    moreover from this le have "round_half_even (x / 2 powi ?e) \<le> n * 2 ^ nat (j - ?e)"
      by (intro round_half_even_le) simp
    ultimately show ?thesis by (simp only: of_int_le_iff)
  next
    case False
    have "x / 2 powi ?e \<le> (of_int (2 ^ 53) :: rat)" using b(2) by simp
    then have "round_half_even (x / 2 powi ?e) \<le> 2 ^ 53" by (rule round_half_even_le)
    then have "(of_int (round_half_even (x / 2 powi ?e)) :: rat) \<le> of_int (2 ^ 53)"
      by (simp only: of_int_le_iff)
    with False show ?thesis by simp
  qed
  then have "of_int (round_half_even (x / 2 powi ?e)) * 2 powi ?e \<le> ?c"
    using u by (simp add: le_divide_eq)
  with assms(1) show ?thesis by (simp add: to_double_def)
qed

lemma to_double_exact:
  assumes "0 < n" and "n < 2 ^ 53"
  shows "to_double (of_int n * 2 powi j) = of_int n * 2 powi j"
proof (rule antisym)
  have "(0::rat) < of_int n * 2 powi j" using assms(1) by (simp add: zero_less_mult_iff)
  then show "to_double (of_int n * 2 powi j) \<le> of_int n * 2 powi j"
    by (rule to_double_le [OF _ assms(2)]) simp
  show "of_int n * 2 powi j \<le> to_double (of_int n * 2 powi j)"
    by (rule to_double_ge [OF assms]) simp
qed


text \<open>
  The age in minutes as the status read computes it: it is exact on a whole number of
  minutes, and for a threshold below \<open>2 ^ 27\<close> minutes it exceeds the threshold exactly
  when the age in microseconds does.
\<close>

lemma to_double_of_int:
  assumes "0 < n" and "n < 2 ^ 53"
  shows "to_double (of_int n) = of_int n"
  using to_double_exact [OF assms, of 0] by simp


lemma total_minutes_whole:
  assumes "0 < m" and "m < 140737488355328"
  shows "total_minutes (timedelta_minutes m) = of_int m"
proof -
  have a: "(of_int (timedelta_minutes m) :: rat) / 1000000 = of_int (60 * m)"
    by (simp add: timedelta_minutes_def)
  have b: "to_double (of_int (60 * m)) = of_int (60 * m)"
    using assms by (intro to_double_of_int) simp_all
  have c: "(of_int (60 * m) :: rat) / 60 = of_int m" by simp
  have d: "to_double (of_int m) = of_int m"
    using assms by (intro to_double_of_int) simp_all
  show ?thesis unfolding total_minutes_def a b c d ..
qed

lemma total_minutes_gt:
  assumes "0 \<le> m" and "m < 134217728" and "timedelta_minutes m < d"
  shows "of_int m < total_minutes d"
proof -
  let ?n1 = "62914560 * m + 1" and ?n2 = "67108864 * m + 1"
  from assms(3) have "60000000 * m + 1 \<le> d" by (simp add: timedelta_minutes_def)
  then have "(of_int (60000000 * m + 1) :: rat) \<le> of_int d" by (simp only: of_int_le_iff)
  then have "(of_int (60000000 * m + 1) :: rat) / 1000000 \<le> of_int d / 1000000"
    by (simp add: divide_right_mono)
  moreover have "(of_int ?n1 :: rat) * 2 powi (- 20) \<le> of_int (60000000 * m + 1) / 1000000"
    by (simp add: field_simps)
  ultimately have "(of_int ?n1 :: rat) * 2 powi (- 20) \<le> of_int d / 1000000" by simp
  then have s: "(of_int ?n1 :: rat) * 2 powi (- 20) \<le> to_double (of_int d / 1000000)"
    using assms(1,2) by (intro to_double_ge) simp_all
  have "(of_int ?n2 :: rat) * 2 powi (- 26) \<le> (of_int ?n1 * 2 powi (- 20)) / 60"
    using assms(1) by (simp add: field_simps)
  also have "\<dots> \<le> to_double (of_int d / 1000000) / 60"
    using s by (simp add: divide_right_mono)
  finally have "(of_int ?n2 :: rat) * 2 powi (- 26) \<le> to_double (to_double (of_int d / 1000000) / 60)"
    using assms(1,2) by (intro to_double_ge) simp_all
  moreover have "(of_int m :: rat) < of_int ?n2 * 2 powi (- 26)"
    by (simp add: field_simps)
  ultimately show ?thesis by (simp add: total_minutes_def)
qed



lemma bson_date_whole: "t mod 1000 = 0 \<Longrightarrow> bson_date t = t"
  using div_mult_mod_eq [of t 1000] by (simp add: bson_date_def)

lemma bson_date_add_whole:
  assumes "td mod 1000 = 0"
  shows "bson_date (t + td) = bson_date t + td"
proof -
  from assms obtain k where k: "td = 1000 * k" by (auto simp: mod_eq_0_iff_dvd)
  have "(t + 1000 * k) div 1000 = t div 1000 + k" by simp
  then show ?thesis by (simp add: bson_date_def k algebra_simps)
qed

lemma bson_date_mod: "bson_date t mod 1000 = 0"
  by (simp add: bson_date_def)


subsection \<open>The active listing\<close>

text \<open>
  C3. When the store answers, the active-ads query returns success with exactly the ads of
  the collection whose \<open>is_active\<close> is true and whose \<open>expires_at\<close> is strictly later
  than the current time (as a multiset: each such ad once per occurrence, and nothing
  else). In particular no ad with \<open>expires_at \<le> now\<close> is listed, whatever its
  \<open>is_active\<close> flag says.
\<close>

theorem get_active_ads_exact:
  assumes "db_raises env 0 = None"
  shows "snd (get_active_ads env db) = 200
    \<and> json_get ''success'' (fst (get_active_ads env db)) = Some (JBool True)
    \<and> mset (listed (get_active_ads env db)) =
        image_mset ad_json
          (filter_mset (\<lambda>a. is_active a \<and> expires_at a > get_wat_time env) (mset db))
    \<and> (\<forall>a. a \<in> set db \<and> expires_at a \<le> get_wat_time env
          \<longrightarrow> ad_json a \<notin> set (listed (get_active_ads env db)))"
proof -
  let ?P = "\<lambda>a. is_active a = True \<and> expires_at a > get_wat_time env"
  have r: "get_active_ads env db =
      (JObj [(''success'', JBool True), (''ads'', JList (map ad_json (find_sort_desc ?P created_at db)))], 200)"
    using assms by (simp add: get_active_ads_def Let_def)
  have l: "listed (get_active_ads env db) = map ad_json (find_sort_desc ?P created_at db)"
    by (simp add: r)
  have ex: "ad_json a \<notin> set (listed (get_active_ads env db))"
    if "expires_at a \<le> get_wat_time env" for a
  proof
    assume "ad_json a \<in> set (listed (get_active_ads env db))"
    then obtain b where b: "ad_json b = ad_json a" "?P b"
      by (auto simp: l set_find_sort_desc)
    from b(1) have "json_get ''expires_at'' (ad_json b) = json_get ''expires_at'' (ad_json a)"
      by simp
    then have "expires_at b = expires_at a" by (simp only: json_get_expires_at option.inject json.inject)
    with b(2) that show False by simp
  qed
  have c1: "snd (get_active_ads env db) = 200"
    and c2: "json_get ''success'' (fst (get_active_ads env db)) = Some (JBool True)"
    by (simp_all add: r)
  have c3: "mset (listed (get_active_ads env db)) =
        image_mset ad_json
          (filter_mset (\<lambda>a. is_active a \<and> expires_at a > get_wat_time env) (mset db))"
    by (simp add: l mset_find_sort_desc)
  from c1 c2 c3 ex show ?thesis by blast
qed

theorem get_active_ads_exact_witness:
  "db_raises (ex_ads_env 0) 0 = None
   \<and> snd (get_active_ads (ex_ads_env 0) ex_ads) = 200
   \<and> listed (get_active_ads (ex_ads_env 0) ex_ads) = [ad_json (ex_ad ''65f0a1b2c3d4e5f60718293b'' 200000 4000000000 True)]
   \<and> ad_json (ex_ad ''65f0a1b2c3d4e5f60718293a'' 100000 900000 True)
        \<notin> set (listed (get_active_ads (ex_ads_env 0) ex_ads))"
proof -
  have h: "db_raises (ex_ads_env 0) 0 = None" by (simp add: ex_ads_env_def)
  have m: "ex_ad ''65f0a1b2c3d4e5f60718293a'' 100000 900000 True \<in> set ex_ads
      \<and> expires_at (ex_ad ''65f0a1b2c3d4e5f60718293a'' 100000 900000 True) \<le> get_wat_time (ex_ads_env 0)"
    by (simp add: ex_ads_def ex_ad_def get_wat_time_def ex_ads_env_def timedelta_hours_def)
  have l: "listed (get_active_ads (ex_ads_env 0) ex_ads)
      = [ad_json (ex_ad ''65f0a1b2c3d4e5f60718293b'' 200000 4000000000 True)]"
    by (simp add: get_active_ads_def ex_ads_env_def ex_ads_def ex_ad_def get_wat_time_def
        timedelta_hours_def find_sort_desc_def Let_def)
  from get_active_ads_exact [OF h, of ex_ads] m h l show ?thesis by blast
qed

subsection \<open>Extending an ad\<close>

text \<open>
  C2 (amended). Extending an ad by its identifier, when the stored \<open>expires_at\<close> plus 7
  days is not after \<open>datetime.max\<close>, replaces the ad by itself with \<open>expires_at\<close> set
  to the stored \<open>expires_at\<close> plus exactly 7 days (604800000000 microseconds) and
  \<open>is_active\<close> set to true: the new expiry does not depend on the current time, no other
  field of the ad changes and no other ad changes. When the sum is after \<open>datetime.max\<close>
  the addition raises, the response is the 500 error and the collection is unchanged.
  (The identifier parses, the ad is in the collection with a BSON date as its expiry, and
  the store calls succeed.)
\<close>

theorem extend_ad_adds_seven_days:
  assumes "ObjectId ad_id = Inr oid"
    and "db_raises env 0 = None"
    and "distinct (map doc_id db)" and "i < length db" and "doc_id (db ! i) = oid"
    and "datetime_ok (expires_at (db ! i))" and "expires_at (db ! i) mod 1000 = 0"
  shows "(expires_at (db ! i) + 604800000000 \<le> datetime_max \<and> db_raises env 1 = None \<longrightarrow>
           extend_ad env ad_id db =
             ((JObj [(''success'', JBool True), (''message'', JStr ''Ad extended successfully'')], 200),
              db[i := (db ! i)\<lparr>expires_at := expires_at (db ! i) + 604800000000,
                                is_active := True\<rparr>]))
       \<and> (datetime_max < expires_at (db ! i) + 604800000000 \<longrightarrow>
           extend_ad env ad_id db =
             ((JObj [(''success'', JBool False), (''error'', JStr ''date value out of range'')], 500),
              db))"
proof -
  have f: "find_one (\<lambda>a. doc_id a = oid) db = Some (db ! i)"
    using find_one_by_id [OF assms(3,4)] assms(5) by simp
  have u: "update_one (\<lambda>a. doc_id a = oid) upd db = db[i := upd (db ! i)]" for upd
    using update_one_by_id [OF assms(3,4)] assms(5) by simp
  have b: "bson_date (expires_at (db ! i) + 604800000000) = expires_at (db ! i) + 604800000000"
    using assms(7) by (simp add: bson_date_add_whole bson_date_whole)
  have ok: "extend_ad env ad_id db =
             ((JObj [(''success'', JBool True), (''message'', JStr ''Ad extended successfully'')], 200),
              db[i := (db ! i)\<lparr>expires_at := expires_at (db ! i) + 604800000000,
                                is_active := True\<rparr>])"
    if "expires_at (db ! i) + 604800000000 \<le> datetime_max" "db_raises env 1 = None"
  proof -
    from that(1) assms(6)
    have "datetime_add (expires_at (db ! i)) (timedelta_days 7)
            = Inr (expires_at (db ! i) + 604800000000)"
      by (simp add: datetime_add_def datetime_ok_def timedelta_days_def)
    then show ?thesis
      using assms(1,2) that(2) by (simp add: extend_ad_def f u b)
  qed
  have over: "extend_ad env ad_id db =
             ((JObj [(''success'', JBool False), (''error'', JStr ''date value out of range'')], 500),
              db)"
    if "datetime_max < expires_at (db ! i) + 604800000000"
  proof -
    from that
    have "datetime_add (expires_at (db ! i)) (timedelta_days 7)
            = Inl (OverflowError ''date value out of range'')"
      by (simp add: datetime_add_def datetime_ok_def timedelta_days_def)
    then show ?thesis
      using assms(1,2) by (simp add: extend_ad_def f server_error_def)
  qed
  from ok over show ?thesis by blast
qed

theorem extend_ad_adds_seven_days_witness:
  "ObjectId ''65F0A1B2C3D4E5F60718293B'' = Inr ''65f0a1b2c3d4e5f60718293b''
   \<and> distinct (map doc_id ex_ads)
   \<and> expires_at (ex_ads ! 1) = 4000000000 \<and> get_wat_time (ex_ads_env 500000000) = 4100000000
   \<and> extend_ad (ex_ads_env 500000000) ''65F0A1B2C3D4E5F60718293B'' ex_ads =
     ((JObj [(''success'', JBool True), (''message'', JStr ''Ad extended successfully'')], 200),
      [ex_ad ''65f0a1b2c3d4e5f60718293a'' 100000 900000 True,
       ex_ad ''65f0a1b2c3d4e5f60718293b'' 200000 608800000000 True,
       ex_ad ''65f0a1b2c3d4e5f60718293c'' 300000 5000000000 False])
   \<and> ObjectId ''65f0a1b2c3d4e5f60718293e'' = Inr ''65f0a1b2c3d4e5f60718293e''
   \<and> expires_at (ex_ads_far ! 0) = 315537897599999000
   \<and> extend_ad (ex_ads_env 500000000) ''65f0a1b2c3d4e5f60718293e'' ex_ads_far =
     ((JObj [(''success'', JBool False), (''error'', JStr ''date value out of range'')], 500),
      ex_ads_far)"
proof -
  let ?env = "ex_ads_env 500000000"
  have a1: "ObjectId ''65F0A1B2C3D4E5F60718293B'' = Inr ''65f0a1b2c3d4e5f60718293b''"
    by (simp add: ObjectId_def ObjectId_is_valid_def is_hex_digit_def ascii_lower_def)
  have a2: "db_raises ?env 0 = None" and a2': "db_raises ?env 1 = None"
    by (simp_all add: ex_ads_env_def)
  have a3: "distinct (map doc_id ex_ads)" by (simp add: ex_ads_def ex_ad_def)
  have a4: "1 < length ex_ads" "doc_id (ex_ads ! 1) = ''65f0a1b2c3d4e5f60718293b''"
    by (simp_all add: ex_ads_def ex_ad_def)
  have a5: "expires_at (ex_ads ! 1) = 4000000000" "get_wat_time ?env = 4100000000"
    by (simp_all add: ex_ads_def ex_ad_def get_wat_time_def ex_ads_env_def timedelta_hours_def)
  have a6: "datetime_ok (expires_at (ex_ads ! 1))" "expires_at (ex_ads ! 1) mod 1000 = 0"
      "expires_at (ex_ads ! 1) + 604800000000 \<le> datetime_max"
    unfolding a5 by (simp_all add: datetime_ok_def datetime_max_def)
  from extend_ad_adds_seven_days [OF a1 a2 a3 a4 a6(1,2)] a6(3) a2'
  have r: "extend_ad ?env ''65F0A1B2C3D4E5F60718293B'' ex_ads =
     ((JObj [(''success'', JBool True), (''message'', JStr ''Ad extended successfully'')], 200),
      [ex_ad ''65f0a1b2c3d4e5f60718293a'' 100000 900000 True,
       ex_ad ''65f0a1b2c3d4e5f60718293b'' 200000 608800000000 True,
       ex_ad ''65f0a1b2c3d4e5f60718293c'' 300000 5000000000 False])"
    by (simp add: ex_ads_def ex_ad_def)
  have b1: "ObjectId ''65f0a1b2c3d4e5f60718293e'' = Inr ''65f0a1b2c3d4e5f60718293e''"
    by (simp add: ObjectId_def ObjectId_is_valid_def is_hex_digit_def ascii_lower_def)
  have b3: "distinct (map doc_id ex_ads_far)" "0 < length ex_ads_far"
      "doc_id (ex_ads_far ! 0) = ''65f0a1b2c3d4e5f60718293e''"
      "expires_at (ex_ads_far ! 0) = 315537897599999000"
    by (simp_all add: ex_ads_far_def ex_ad_def)
  have b6: "datetime_ok (expires_at (ex_ads_far ! 0))" "expires_at (ex_ads_far ! 0) mod 1000 = 0"
      "datetime_max < expires_at (ex_ads_far ! 0) + 604800000000"
    unfolding b3 by (simp_all add: datetime_ok_def datetime_max_def)
  from extend_ad_adds_seven_days [OF b1 a2 b3(1,2,3) b6(1,2)] b6(3)
  have o: "extend_ad ?env ''65f0a1b2c3d4e5f60718293e'' ex_ads_far =
     ((JObj [(''success'', JBool False), (''error'', JStr ''date value out of range'')], 500),
      ex_ads_far)"
    by blast
  from a1 a3 a5 r b1 b3(4) o show ?thesis by blast
qed

theorem extend_ad_overflow_counterexample:
  "ObjectId ''65f0a1b2c3d4e5f60718293e'' = Inr ''65f0a1b2c3d4e5f60718293e''
   \<and> db_raises (ex_ads_env 500000000) 0 = None \<and> db_raises (ex_ads_env 500000000) 1 = None
   \<and> doc_id (ex_ads_far ! 0) = ''65f0a1b2c3d4e5f60718293e''
   \<and> expires_at (ex_ads_far ! 0) = 315537897599999000
   \<and> datetime_max = 315537897599999999
   \<and> extend_ad (ex_ads_env 500000000) ''65f0a1b2c3d4e5f60718293e'' ex_ads_far =
     ((JObj [(''success'', JBool False), (''error'', JStr ''date value out of range'')], 500),
      ex_ads_far)"
proof -
  have o: "ObjectId ''65f0a1b2c3d4e5f60718293e'' = Inr ''65f0a1b2c3d4e5f60718293e''"
    by (simp add: ObjectId_def ObjectId_is_valid_def is_hex_digit_def ascii_lower_def)
  have e: "db_raises (ex_ads_env 500000000) 0 = None" "db_raises (ex_ads_env 500000000) 1 = None"
      "doc_id (ex_ads_far ! 0) = ''65f0a1b2c3d4e5f60718293e''"
      "expires_at (ex_ads_far ! 0) = 315537897599999000"
      "datetime_max = 315537897599999999"
    by (simp_all add: ex_ads_env_def ex_ads_far_def ex_ad_def datetime_max_def)
  have r: "extend_ad (ex_ads_env 500000000) ''65f0a1b2c3d4e5f60718293e'' ex_ads_far =
     ((JObj [(''success'', JBool False), (''error'', JStr ''date value out of range'')], 500),
      ex_ads_far)"
    unfolding extend_ad_def o
    by (simp add: ex_ads_env_def ex_ads_far_def ex_ad_def find_one_def datetime_add_def
        datetime_ok_def datetime_max_def timedelta_days_def server_error_def)
  from o e r show ?thesis by blast
qed

subsection \<open>Creating an ad\<close>






subsection \<open>Deleting an ad and deleting a listing\<close>

lemma delete_one_by_id:
  fixes db :: "'a doc_scheme list"
  assumes "distinct (map doc_id db)" "i < length db"
  shows "delete_one (\<lambda>a. doc_id a = doc_id (db ! i)) db = take i db @ drop (Suc i) db"
  using assms
proof (induction db arbitrary: i)
  case Nil
  then show ?case by simp
next
  case (Cons x xs)
  show ?case
  proof (cases i)
    case 0
    then show ?thesis by simp
  next
    case (Suc j)
    with Cons.prems have "doc_id (xs ! j) \<in> set (map doc_id xs)" by simp
    with Cons.prems have "doc_id x \<noteq> doc_id (xs ! j)" by auto
    with Cons Suc show ?thesis by simp
  qed
qed

lemma ObjectId_ex1: "ObjectId ''65f0a1b2c3d4e5f60718293a'' = Inr ''65f0a1b2c3d4e5f60718293a''"
  by (simp add: ObjectId_def ObjectId_is_valid_def is_hex_digit_def ascii_lower_def)

text \<open>
  What \<open>delete_ad\<close> does with the replies of Cloudinary. When every \<open>destroy\<close> it
  makes returns, whatever the reply says (also \<open>not found\<close>), the ad is removed and the
  response is the success response. When the \<open>destroy\<close> of the logo raises, the handler
  leaves through its \<open>except\<close> clause: the response is the 500 error and the
  collection is unchanged.
\<close>

lemma delete_ad_destroy_returns:
  assumes "ObjectId ad_id = Inr oid"
    and "db_raises env 0 = None" and "db_raises env 1 = None"
    and "distinct (map doc_id db)" and "i < length db" and "doc_id (db ! i) = oid"
    and "\<forall>p. sponsor_logo_public_id (db ! i) = Some p \<longrightarrow> (\<exists>r. cloudinary_destroy env p = Inr r)"
    and "\<forall>p. ad_image_public_id (db ! i) = Some p \<longrightarrow> (\<exists>r. cloudinary_destroy env p = Inr r)"
  shows "delete_ad env ad_id db =
     ((JObj [(''success'', JBool True), (''message'', JStr ''Ad deleted successfully'')], 200),
      take i db @ drop (Suc i) db)"
proof -
  have f: "find_one (\<lambda>a. doc_id a = oid) db = Some (db ! i)"
    using find_one_by_id [OF assms(4,5)] assms(6) by simp
  have d: "delete_one (\<lambda>a. doc_id a = oid) db = take i db @ drop (Suc i) db"
    using delete_one_by_id [OF assms(4,5)] assms(6) by simp
  have l: "destroy_if_present env (sponsor_logo_public_id (db ! i)) = Inr ()"
    using assms(7) by (auto simp: destroy_if_present_def split: option.splits)
  have m: "destroy_if_present env (ad_image_public_id (db ! i)) = Inr ()"
    using assms(8) by (auto simp: destroy_if_present_def split: option.splits)
  show ?thesis
    using assms(1-3) by (simp add: delete_ad_def f d l m)
qed

lemma delete_ad_destroy_raises:
  assumes "ObjectId ad_id = Inr oid"
    and "db_raises env 0 = None"
    and "distinct (map doc_id db)" and "i < length db" and "doc_id (db ! i) = oid"
    and "sponsor_logo_public_id (db ! i) = Some p" and "cloudinary_destroy env p = Inl e"
  shows "delete_ad env ad_id db = (server_error e, db)"
proof -
  have f: "find_one (\<lambda>a. doc_id a = oid) db = Some (db ! i)"
    using find_one_by_id [OF assms(3,4)] assms(5) by simp
  show ?thesis
    using assms(1,2,6,7) by (simp add: delete_ad_def f destroy_if_present_def)
qed

text \<open>
  \<open>delete_wear\<close> goes through \<open>delete_from_cloudinary\<close>, which catches every
  exception: the listing is removed whatever Cloudinary does.
\<close>

lemma delete_wear_removes_record:
  fixes db :: "'b wear_scheme list"
  assumes "ObjectId_is_valid item_id"
    and "db_raises env 0 = None" and "db_raises env 1 = None"
    and "distinct (map doc_id db)" and "i < length db"
    and "doc_id (db ! i) = map ascii_lower item_id"
  shows "delete_wear env item_id db =
     ((JObj [(''status'', JStr ''success''), (''message'', JStr ''Product deleted successfully'')], 200),
      take i db @ drop (Suc i) db)"
proof -
  let ?oid = "map ascii_lower item_id"
  have f: "find_one (\<lambda>a. doc_id a = ?oid) db = Some (db ! i)"
    using find_one_by_id [OF assms(4,5)] assms(6) by simp
  have d: "delete_one (\<lambda>a. doc_id a = ?oid) db = take i db @ drop (Suc i) db"
    using delete_one_by_id [OF assms(4,5)] assms(6) by simp
  have "db ! i \<in> set db" using assms(5) by simp
  then have c: "deleted_count (\<lambda>a. doc_id a = ?oid) db = 1"
    using assms(6) by (auto simp: deleted_count_def)
  show ?thesis
    using assms(1-3) by (simp add: delete_wear_def f d c Let_def)
qed

text \<open>
  C4. Deleting an ad removes the record and answers with success even when the asset
  deletion fails. The code does not do this when the failure is an exception of
  \<open>cloudinary.uploader.destroy\<close>: for the first sample ad, which has a logo, and an
  environment where \<open>destroy\<close> raises, \<open>delete_ad\<close> answers 500 with the text of the
  exception and the collection still holds the ad.
\<close>

theorem delete_ad_destroy_raises_record_stays:
  "delete_ad ex_ads_env_unreachable ''65f0a1b2c3d4e5f60718293a'' ex_ads =
     ((JObj [(''success'', JBool False), (''error'', JStr ''Connection refused'')], 500), ex_ads)"
  by (simp add: delete_ad_def ObjectId_ex1 ex_ads_env_unreachable_def ex_ads_env_def ex_ads_def
      ex_ad_def find_one_def destroy_if_present_def server_error_def)

subsection \<open>The two sweeps\<close>

lemma update_many_map: "update_many flt upd db = map (\<lambda>x. if flt x then upd x else x) db"
  by (simp add: update_many_def)

lemma check_user_status_idempotent:
  "snd (check_user_status env (snd (check_user_status env db))) = snd (check_user_status env db)"
proof -
  define P1 where "P1 = (\<lambda>u::user. status u = Some ''online''
      \<and> lt_time (last_active u) (wat_time_func env 0 - timedelta_minutes (IDLE_THRESHOLD (STATUS_CONFIG env))))"
  define P2 where "P2 = (\<lambda>u::user. (status u = Some ''online'' \<or> status u = Some ''idle'')
      \<and> lt_time (last_active u) (wat_time_func env 0 - timedelta_minutes (OFFLINE_THRESHOLD (STATUS_CONFIG env))))"
  define g1 where "g1 = (\<lambda>u::user. if P1 u then u\<lparr>status := Some ''idle''\<rparr> else u)"
  define g2 where "g2 = (\<lambda>u::user. if P2 u then u\<lparr>status := Some ''offline''\<rparr> else u)"
  have s: "snd (check_user_status env d) =
      (case db_raises env 0 of Some e \<Rightarrow> d
       | None \<Rightarrow> (case db_raises env 1 of Some e \<Rightarrow> map g1 d | None \<Rightarrow> map g2 (map g1 d)))" for d
    by (simp add: check_user_status_def check_user_status_try_def Let_def update_many_map
        P1_def P2_def g1_def g2_def split: option.splits)
  have n1: "\<not> P1 (g1 u)" for u
    by (simp add: g1_def P1_def)
  then have i1: "g1 (g1 u) = g1 u" for u
    by (simp add: g1_def)
  have n2: "\<not> P2 (g2 u)" for u
    by (simp add: g2_def P2_def)
  have n12: "\<not> P1 (g2 (g1 u))" for u
    using n1 [of u] by (simp add: g2_def P1_def)
  have i2: "g2 (g1 (g2 (g1 u))) = g2 (g1 u)" for u
  proof -
    have "g1 (g2 (g1 u)) = g2 (g1 u)" using n12 [of u] by (simp add: g1_def)
    moreover have "g2 (g2 (g1 u)) = g2 (g1 u)" using n2 [of "g1 u"] by (simp add: g2_def)
    ultimately show ?thesis by simp
  qed
  show ?thesis
    by (simp add: s i1 i2 split: option.splits)
qed

lemma check_expired_ads_idempotent:
  "snd (check_expired_ads env (snd (check_expired_ads env db))) = snd (check_expired_ads env db)"
proof -
  define P where "P = (\<lambda>a::ad. expires_at a \<le> get_wat_time env \<and> is_active a = True)"
  define g where "g = (\<lambda>a::ad. if P a then a\<lparr>is_active := False\<rparr> else a)"
  have s: "snd (check_expired_ads env d) =
      (case db_raises env 0 of Some e \<Rightarrow> d | None \<Rightarrow> map g d)" for d
    by (simp add: check_expired_ads_def check_expired_ads_try_def Let_def update_many_map
        P_def g_def split: option.splits)
  have "\<not> P (g a)" for a by (simp add: g_def P_def)
  then have "g (g a) = g a" for a by (simp add: g_def)
  then show ?thesis by (simp add: s split: option.splits)
qed

lemma check_expired_ads_second_run_modifies_nothing:
  "modified_count (\<lambda>a. expires_at a \<le> get_wat_time env \<and> is_active a = True)
      (\<lambda>a. a\<lparr>is_active := False\<rparr>) (snd (check_expired_ads env db)) = 0"
  if "db_raises env 0 = None"
  using that
  by (auto simp: check_expired_ads_def check_expired_ads_try_def Let_def update_many_map
      modified_count_def filter_empty_conv)

lemma check_user_status_second_run_modifies_nothing:
  assumes "db_raises env 0 = None" "db_raises env 1 = None"
  shows "modified_count
           (\<lambda>u. status u = Some ''online''
             \<and> lt_time (last_active u) (wat_time_func env 0 - timedelta_minutes (IDLE_THRESHOLD (STATUS_CONFIG env))))
           (\<lambda>u. u\<lparr>status := Some ''idle''\<rparr>) (snd (check_user_status env db)) = 0
       \<and> modified_count
           (\<lambda>u. (status u = Some ''online'' \<or> status u = Some ''idle'')
             \<and> lt_time (last_active u) (wat_time_func env 0 - timedelta_minutes (OFFLINE_THRESHOLD (STATUS_CONFIG env))))
           (\<lambda>u. u\<lparr>status := Some ''offline''\<rparr>) (snd (check_user_status env db)) = 0"
  using assms
  by (auto simp: check_user_status_def check_user_status_try_def Let_def update_many_map
      modified_count_def filter_empty_conv)

text \<open>
  C9. Both sweeps are idempotent: at the same clock value and configuration (and with the
  same store calls failing, if any), running the presence sweep on the collection a
  presence sweep left gives that collection again, and likewise for the ad-expiry sweep.
  When the store calls succeed, the second run modifies no record: each of its
  \<open>update_many\<close> calls has a \<open>modified_count\<close> of 0.
\<close>

theorem sweeps_idempotent:
  "snd (check_user_status uenv (snd (check_user_status uenv users))) = snd (check_user_status uenv users)
   \<and> snd (check_expired_ads aenv (snd (check_expired_ads aenv ads))) = snd (check_expired_ads aenv ads)
   \<and> (db_raises uenv 0 = None \<and> db_raises uenv 1 = None \<longrightarrow>
        modified_count
           (\<lambda>u. status u = Some ''online''
             \<and> lt_time (last_active u) (wat_time_func uenv 0 - timedelta_minutes (IDLE_THRESHOLD (STATUS_CONFIG uenv))))
           (\<lambda>u. u\<lparr>status := Some ''idle''\<rparr>) (snd (check_user_status uenv users)) = 0
        \<and> modified_count
           (\<lambda>u. (status u = Some ''online'' \<or> status u = Some ''idle'')
             \<and> lt_time (last_active u) (wat_time_func uenv 0 - timedelta_minutes (OFFLINE_THRESHOLD (STATUS_CONFIG uenv))))
           (\<lambda>u. u\<lparr>status := Some ''offline''\<rparr>) (snd (check_user_status uenv users)) = 0)
   \<and> (db_raises aenv 0 = None \<longrightarrow>
        modified_count (\<lambda>a. expires_at a \<le> get_wat_time aenv \<and> is_active a = True)
          (\<lambda>a. a\<lparr>is_active := False\<rparr>) (snd (check_expired_ads aenv ads)) = 0)"
  using check_user_status_idempotent [of uenv users] check_expired_ads_idempotent [of aenv ads]
    check_user_status_second_run_modifies_nothing [of uenv users]
    check_expired_ads_second_run_modifies_nothing [of aenv ads]
  by blast

theorem sweeps_idempotent_witness:
  "db_raises ex_users_env 0 = None \<and> db_raises ex_users_env 1 = None
   \<and> db_raises (ex_ads_env 5000) 0 = None
   \<and> snd (check_user_status ex_users_env ex_users) =
        [ex_user ''65f0a1b2c3d4e5f607182a01'' ''john'' (Some ''offline'') (Some 0) (Some 0),
         ex_user ''65f0a1b2c3d4e5f607182a02'' ''mary'' (Some ''idle'') (Some 3000000000) (Some 3000000000),
         ex_user ''65f0a1b2c3d4e5f607182a03'' ''tobi'' (Some ''active'') (Some 0) (Some 7000)]
   \<and> snd (check_user_status ex_users_env (snd (check_user_status ex_users_env ex_users))) =
        snd (check_user_status ex_users_env ex_users)
   \<and> snd (check_expired_ads (ex_ads_env 5000) ex_ads) =
        [ex_ad ''65f0a1b2c3d4e5f60718293a'' 100000 900000 False,
         ex_ad ''65f0a1b2c3d4e5f60718293b'' 200000 4000000000 True,
         ex_ad ''65f0a1b2c3d4e5f60718293c'' 300000 5000000000 False]
   \<and> snd (check_expired_ads (ex_ads_env 5000) (snd (check_expired_ads (ex_ads_env 5000) ex_ads))) =
        snd (check_expired_ads (ex_ads_env 5000) ex_ads)
   \<and> modified_count (\<lambda>a. expires_at a \<le> get_wat_time (ex_ads_env 5000) \<and> is_active a = True)
          (\<lambda>a. a\<lparr>is_active := False\<rparr>) (snd (check_expired_ads (ex_ads_env 5000) ex_ads)) = 0"
proof -
  have h: "db_raises ex_users_env 0 = None" "db_raises ex_users_env 1 = None"
      "db_raises (ex_ads_env 5000) 0 = None"
    by (simp_all add: ex_users_env_def ex_ads_env_def)
  have u: "snd (check_user_status ex_users_env ex_users) =
        [ex_user ''65f0a1b2c3d4e5f607182a01'' ''john'' (Some ''offline'') (Some 0) (Some 0),
         ex_user ''65f0a1b2c3d4e5f607182a02'' ''mary'' (Some ''idle'') (Some 3000000000) (Some 3000000000),
         ex_user ''65f0a1b2c3d4e5f607182a03'' ''tobi'' (Some ''active'') (Some 0) (Some 7000)]"
    by (simp add: check_user_status_def check_user_status_try_def Let_def update_many_def
        ex_users_env_def ex_users_def ex_user_def lt_time_def bson_date_def
        timedelta_minutes_def)
  have a: "snd (check_expired_ads (ex_ads_env 5000) ex_ads) =
        [ex_ad ''65f0a1b2c3d4e5f60718293a'' 100000 900000 False,
         ex_ad ''65f0a1b2c3d4e5f60718293b'' 200000 4000000000 True,
         ex_ad ''65f0a1b2c3d4e5f60718293c'' 300000 5000000000 False]"
    by (simp add: check_expired_ads_def check_expired_ads_try_def Let_def update_many_def
        ex_ads_env_def ex_ads_def ex_ad_def get_wat_time_def timedelta_hours_def)
  from sweeps_idempotent [of ex_users_env ex_users "ex_ads_env 5000" ex_ads] h
  have "snd (check_user_status ex_users_env (snd (check_user_status ex_users_env ex_users))) =
        snd (check_user_status ex_users_env ex_users)
   \<and> snd (check_expired_ads (ex_ads_env 5000) (snd (check_expired_ads (ex_ads_env 5000) ex_ads))) =
        snd (check_expired_ads (ex_ads_env 5000) ex_ads)
   \<and> modified_count (\<lambda>a. expires_at a \<le> get_wat_time (ex_ads_env 5000) \<and> is_active a = True)
          (\<lambda>a. a\<lparr>is_active := False\<rparr>) (snd (check_expired_ads (ex_ads_env 5000) ex_ads)) = 0"
    by blast
  with h u a show ?thesis by blast
qed

subsection \<open>Presence: the offline threshold\<close>

lemma status_refl: "status u = Some s \<Longrightarrow> u\<lparr>status := Some s\<rparr> = (u :: user)"
  by (cases u) simp

lemma get_user_status_offline:
  assumes "ObjectId user_id = Inr (doc_id (db ! i))"
    and "distinct (map doc_id db)" and "i < length db"
    and "last_active (db ! i) = Some t"
    and "0 \<le> OFFLINE_THRESHOLD (STATUS_CONFIG env)"
    and "OFFLINE_THRESHOLD (STATUS_CONFIG env) < 134217728"
    and "t < wat_time_func env 0 - timedelta_minutes (OFFLINE_THRESHOLD (STATUS_CONFIG env))"
    and "db_raises env 0 = None" and "db_raises env 1 = None"
  shows "get_user_status env user_id db =
     ((status_body env ''offline'' (project_user (db ! i)), 200),
      db[i := (db ! i)\<lparr>status := Some ''offline''\<rparr>])"
proof -
  have f: "find_one (\<lambda>u. doc_id u = doc_id (db ! i)) db = Some (db ! i)"
    by (rule find_one_by_id [OF assms(2,3)])
  have u: "update_one (\<lambda>u. doc_id u = doc_id (db ! i)) upd db = db[i := upd (db ! i)]" for upd
    by (rule update_one_by_id [OF assms(2,3)])
  have "timedelta_minutes (OFFLINE_THRESHOLD (STATUS_CONFIG env)) < wat_time_func env 0 - t"
    using assms(7) by simp
  then have g: "total_minutes (wat_time_func env 0 - t) > of_int (OFFLINE_THRESHOLD (STATUS_CONFIG env))"
    by (rule total_minutes_gt [OF assms(5,6)])
  show ?thesis
  proof (cases "status (db ! i) = Some ''offline''")
    case True
    then have "db[i := (db ! i)\<lparr>status := Some ''offline''\<rparr>] = db"
      by (simp add: status_refl)
    with True show ?thesis
      using assms(1,4,8) g by (simp add: get_user_status_def f project_user_def Let_def)
  next
    case False
    then show ?thesis
      using assms(1,4,8,9) g by (simp add: get_user_status_def f u project_user_def Let_def)
  qed
qed

lemma check_user_status_nth:
  assumes "db_raises env 0 = None" "db_raises env 1 = None" "i < length db"
  shows "snd (check_user_status env db) ! i =
    (let u = db ! i;
         u1 = (if status u = Some ''online''
                  \<and> lt_time (last_active u) (wat_time_func env 0 - timedelta_minutes (IDLE_THRESHOLD (STATUS_CONFIG env)))
               then u\<lparr>status := Some ''idle''\<rparr> else u)
     in if (status u1 = Some ''online'' \<or> status u1 = Some ''idle'')
           \<and> lt_time (last_active u1) (wat_time_func env 0 - timedelta_minutes (OFFLINE_THRESHOLD (STATUS_CONFIG env)))
        then u1\<lparr>status := Some ''offline''\<rparr> else u1)"
  using assms
  by (simp add: check_user_status_def check_user_status_try_def update_many_def Let_def)

lemma length_check_user_status: "length (snd (check_user_status env db)) = length db"
  by (simp add: check_user_status_def check_user_status_try_def update_many_def Let_def
      split: option.splits)

lemma sweep_leaves_other_status:
  assumes "i < length db"
    and "status (db ! i) \<noteq> Some ''online''" and "status (db ! i) \<noteq> Some ''idle''"
  shows "snd (check_user_status env db) ! i = db ! i"
  using assms
  by (simp add: check_user_status_def check_user_status_try_def update_many_def Let_def
      split: option.splits)

lemma total_minutes_rounds_down: "total_minutes 18000000000000001 = 300000000"
  by code_simp

lemma ObjectId_john: "ObjectId ''65f0a1b2c3d4e5f607182a01'' = Inr ''65f0a1b2c3d4e5f607182a01''"
  by (simp add: ObjectId_def ObjectId_is_valid_def is_hex_digit_def ascii_lower_def)

text \<open>
  C1 (amended). For a user whose stored \<open>last_active\<close> is strictly older than
  \<open>OFFLINE_THRESHOLD\<close> minutes before the current time, with a threshold from 0 to below
  \<open>2 ^ 27 = 134217728\<close> minutes and the store calls succeeding, the status read answers
  200 with status \<open>offline\<close> and leaves \<open>offline\<close> stored, whatever status was stored
  before. One sweep tick leaves \<open>offline\<close> stored when the stored status was
  \<open>online\<close>, \<open>idle\<close> or \<open>offline\<close> and \<open>last_active\<close> is strictly older than the
  threshold instant cut to the millisecond, which is the operand the store compares with.
  The sweep leaves a user with any other stored status as it is.
\<close>

theorem offline_after_threshold:
  assumes "distinct (map doc_id db)" and "i < length db"
    and "last_active (db ! i) = Some t"
    and "datetime_ok t" and "datetime_ok (wat_time_func env 0)"
    and "db_raises env 0 = None" and "db_raises env 1 = None"
  shows "(ObjectId user_id = Inr (doc_id (db ! i))
          \<and> 0 \<le> OFFLINE_THRESHOLD (STATUS_CONFIG env)
          \<and> OFFLINE_THRESHOLD (STATUS_CONFIG env) < 134217728
          \<and> t < wat_time_func env 0 - timedelta_minutes (OFFLINE_THRESHOLD (STATUS_CONFIG env)) \<longrightarrow>
            get_user_status env user_id db =
              ((status_body env ''offline'' (project_user (db ! i)), 200),
               db[i := (db ! i)\<lparr>status := Some ''offline''\<rparr>]))
       \<and> length (snd (check_user_status env db)) = length db
       \<and> (sweep_instants_ok (wat_time_func env 0) (STATUS_CONFIG env)
          \<and> t < bson_date (wat_time_func env 0 - timedelta_minutes (OFFLINE_THRESHOLD (STATUS_CONFIG env)))
          \<and> (status (db ! i) = Some ''online'' \<or> status (db ! i) = Some ''idle''
               \<or> status (db ! i) = Some ''offline'') \<longrightarrow>
            snd (check_user_status env db) ! i = (db ! i)\<lparr>status := Some ''offline''\<rparr>)
       \<and> (status (db ! i) \<noteq> Some ''online'' \<and> status (db ! i) \<noteq> Some ''idle'' \<longrightarrow>
            snd (check_user_status env db) ! i = db ! i)"
proof -
  have r: "get_user_status env user_id db =
              ((status_body env ''offline'' (project_user (db ! i)), 200),
               db[i := (db ! i)\<lparr>status := Some ''offline''\<rparr>])"
    if "ObjectId user_id = Inr (doc_id (db ! i))"
      "0 \<le> OFFLINE_THRESHOLD (STATUS_CONFIG env)"
      "OFFLINE_THRESHOLD (STATUS_CONFIG env) < 134217728"
      "t < wat_time_func env 0 - timedelta_minutes (OFFLINE_THRESHOLD (STATUS_CONFIG env))"
    by (rule get_user_status_offline [OF that(1) assms(1,2,3) that(2,3,4) assms(6,7)])
  have s: "snd (check_user_status env db) ! i = (db ! i)\<lparr>status := Some ''offline''\<rparr>"
    if "t < bson_date (wat_time_func env 0 - timedelta_minutes (OFFLINE_THRESHOLD (STATUS_CONFIG env)))"
      "status (db ! i) = Some ''online'' \<or> status (db ! i) = Some ''idle''
            \<or> status (db ! i) = Some ''offline''"
  proof -
    have lt: "lt_time (last_active (db ! i))
        (wat_time_func env 0 - timedelta_minutes (OFFLINE_THRESHOLD (STATUS_CONFIG env)))"
      using assms(3) that(1) by (simp add: lt_time_def)
    show ?thesis
      using that(2) lt
      by (auto simp: check_user_status_nth [OF assms(6,7,2)] Let_def status_refl)
  qed
  have o: "snd (check_user_status env db) ! i = db ! i"
    if "status (db ! i) \<noteq> Some ''online''" "status (db ! i) \<noteq> Some ''idle''"
    by (rule sweep_leaves_other_status [OF assms(2) that])
  from r s o length_check_user_status show ?thesis by blast
qed

theorem offline_after_threshold_witness:
  "distinct (map doc_id ex_users)
   \<and> last_active (ex_users ! 0) = Some 0 \<and> status (ex_users ! 0) = Some ''online''
   \<and> OFFLINE_THRESHOLD (STATUS_CONFIG ex_users_env) = 15
   \<and> wat_time_func ex_users_env 0 - timedelta_minutes 15 = 2700000000
   \<and> bson_date 2700000000 = 2700000000
   \<and> ObjectId ''65F0A1B2C3D4E5F607182A01'' = Inr (doc_id (ex_users ! 0))
   \<and> get_user_status ex_users_env ''65F0A1B2C3D4E5F607182A01'' ex_users =
        ((JObj [(''success'', JBool True), (''status'', JStr ''offline''),
                (''last_seen'', JStr ''0001-01-01T00:00:00''),
                (''first_name'', JStr ''Ada''), (''department'', JStr ''CSC'')], 200),
         [ex_user ''65f0a1b2c3d4e5f607182a01'' ''john'' (Some ''offline'') (Some 0) (Some 0),
          ex_user ''65f0a1b2c3d4e5f607182a02'' ''mary'' (Some ''online'') (Some 3000000000) (Some 3000000000),
          ex_user ''65f0a1b2c3d4e5f607182a03'' ''tobi'' (Some ''active'') (Some 0) (Some 7000)])
   \<and> snd (check_user_status ex_users_env ex_users) ! 0 =
        ex_user ''65f0a1b2c3d4e5f607182a01'' ''john'' (Some ''offline'') (Some 0) (Some 0)
   \<and> snd (check_user_status ex_users_env ex_users) ! 2 = ex_users ! 2"
proof -
  have d: "distinct (map doc_id ex_users)" and i: "0 < length ex_users"
    and l: "last_active (ex_users ! 0) = Some 0"
    and st: "status (ex_users ! 0) = Some ''online''"
    by (simp_all add: ex_users_def ex_user_def)
  have c: "OFFLINE_THRESHOLD (STATUS_CONFIG ex_users_env) = 15"
      "wat_time_func ex_users_env 0 - timedelta_minutes 15 = 2700000000"
      "bson_date 2700000000 = 2700000000"
    by (simp_all add: ex_users_env_def timedelta_minutes_def bson_date_def)
  have ok: "datetime_ok 0" "datetime_ok (wat_time_func ex_users_env 0)"
      "sweep_instants_ok (wat_time_func ex_users_env 0) (STATUS_CONFIG ex_users_env)"
    by (simp_all add: sweep_instants_ok_def datetime_ok_def datetime_max_def ex_users_env_def
        timedelta_minutes_def)
  have b: "0 \<le> OFFLINE_THRESHOLD (STATUS_CONFIG ex_users_env)"
      "OFFLINE_THRESHOLD (STATUS_CONFIG ex_users_env) < 134217728"
      "0 < wat_time_func ex_users_env 0 - timedelta_minutes (OFFLINE_THRESHOLD (STATUS_CONFIG ex_users_env))"
      "0 < bson_date (wat_time_func ex_users_env 0 - timedelta_minutes (OFFLINE_THRESHOLD (STATUS_CONFIG ex_users_env)))"
    unfolding c by simp_all
  have f: "db_raises ex_users_env 0 = None" "db_raises ex_users_env 1 = None"
    by (simp_all add: ex_users_env_def)
  have o: "ObjectId ''65F0A1B2C3D4E5F607182A01'' = Inr (doc_id (ex_users ! 0))"
    by (simp add: ObjectId_def ObjectId_is_valid_def is_hex_digit_def ascii_lower_def
        ex_users_def ex_user_def)
  note th = offline_after_threshold [OF d i l ok(1,2) f, of "''65F0A1B2C3D4E5F607182A01''"]
  from th o b have "get_user_status ex_users_env ''65F0A1B2C3D4E5F607182A01'' ex_users =
              ((status_body ex_users_env ''offline'' (project_user (ex_users ! 0)), 200),
               ex_users[0 := (ex_users ! 0)\<lparr>status := Some ''offline''\<rparr>])"
    by blast
  then have r: "get_user_status ex_users_env ''65F0A1B2C3D4E5F607182A01'' ex_users =
        ((JObj [(''success'', JBool True), (''status'', JStr ''offline''),
                (''last_seen'', JStr ''0001-01-01T00:00:00''),
                (''first_name'', JStr ''Ada''), (''department'', JStr ''CSC'')], 200),
         [ex_user ''65f0a1b2c3d4e5f607182a01'' ''john'' (Some ''offline'') (Some 0) (Some 0),
          ex_user ''65f0a1b2c3d4e5f607182a02'' ''mary'' (Some ''online'') (Some 3000000000) (Some 3000000000),
          ex_user ''65f0a1b2c3d4e5f607182a03'' ''tobi'' (Some ''active'') (Some 0) (Some 7000)])"
    by (simp add: status_body_def project_user_def ex_users_def ex_user_def ex_users_env_def
        opt_json_def)
  from th st ok(3) b(4) have "snd (check_user_status ex_users_env ex_users) ! 0
      = (ex_users ! 0)\<lparr>status := Some ''offline''\<rparr>"
    by blast
  then have s: "snd (check_user_status ex_users_env ex_users) ! 0 =
        ex_user ''65f0a1b2c3d4e5f607182a01'' ''john'' (Some ''offline'') (Some 0) (Some 0)"
    by (simp add: ex_users_def ex_user_def)
  have d2: "2 < length ex_users" "last_active (ex_users ! 2) = Some 0"
      "status (ex_users ! 2) \<noteq> Some ''online''" "status (ex_users ! 2) \<noteq> Some ''idle''"
    by (simp_all add: ex_users_def ex_user_def)
  from offline_after_threshold [OF d d2(1,2) ok(1,2) f, of "''65F0A1B2C3D4E5F607182A01''"] d2(3,4)
  have k: "snd (check_user_status ex_users_env ex_users) ! 2 = ex_users ! 2"
    by blast
  from d l st c o r s k show ?thesis by blast
qed

theorem sweep_keeps_active_counterexample:
  "last_active (ex_users ! 2) = Some 0
   \<and> (0::int) < wat_time_func ex_users_env 0 - timedelta_minutes (OFFLINE_THRESHOLD (STATUS_CONFIG ex_users_env))
   \<and> (0::int) < bson_date (wat_time_func ex_users_env 0 - timedelta_minutes (OFFLINE_THRESHOLD (STATUS_CONFIG ex_users_env)))
   \<and> db_raises ex_users_env 0 = None \<and> db_raises ex_users_env 1 = None
   \<and> status (ex_users ! 2) = Some ''active''
   \<and> status (snd (check_user_status ex_users_env ex_users) ! 2) = Some ''active''
   \<and> last_active (ex_users_one ! 0) = Some 0
   \<and> wat_time_func (ex_users_env_with 900000500 5 15) 0 - timedelta_minutes 15 = 500
   \<and> snd (check_user_status (ex_users_env_with 900000500 5 15) ex_users_one) =
        [ex_user ''65f0a1b2c3d4e5f607182a01'' ''john'' (Some ''idle'') (Some 0) (Some 0)]
   \<and> wat_time_func (ex_users_env_with 18000000000000001 5 300000000) 0
         - timedelta_minutes 300000000 = 1
   \<and> get_user_status (ex_users_env_with 18000000000000001 5 300000000)
         ''65f0a1b2c3d4e5f607182a01'' ex_users_one =
        ((JObj [(''success'', JBool True), (''status'', JStr ''idle''),
                (''last_seen'', JStr ''0001-01-01T00:00:00''),
                (''first_name'', JStr ''Ada''), (''department'', JStr ''CSC'')], 200),
         [ex_user ''65f0a1b2c3d4e5f607182a01'' ''john'' (Some ''idle'') (Some 0) (Some 0)])"
proof -
  have a: "last_active (ex_users ! 2) = Some 0
   \<and> (0::int) < wat_time_func ex_users_env 0 - timedelta_minutes (OFFLINE_THRESHOLD (STATUS_CONFIG ex_users_env))
   \<and> (0::int) < bson_date (wat_time_func ex_users_env 0 - timedelta_minutes (OFFLINE_THRESHOLD (STATUS_CONFIG ex_users_env)))
   \<and> db_raises ex_users_env 0 = None \<and> db_raises ex_users_env 1 = None
   \<and> status (ex_users ! 2) = Some ''active''
   \<and> status (snd (check_user_status ex_users_env ex_users) ! 2) = Some ''active''"
    by (simp add: check_user_status_def check_user_status_try_def update_many_def Let_def
        ex_users_env_def ex_users_def ex_user_def lt_time_def bson_date_def timedelta_minutes_def)
  have b: "last_active (ex_users_one ! 0) = Some 0"
      "wat_time_func (ex_users_env_with 900000500 5 15) 0 - timedelta_minutes 15 = 500"
      "wat_time_func (ex_users_env_with 18000000000000001 5 300000000) 0
         - timedelta_minutes 300000000 = 1"
    by (simp_all add: ex_users_one_def ex_user_def ex_users_env_with_def timedelta_minutes_def)
  have c: "snd (check_user_status (ex_users_env_with 900000500 5 15) ex_users_one) =
        [ex_user ''65f0a1b2c3d4e5f607182a01'' ''john'' (Some ''idle'') (Some 0) (Some 0)]"
    by (simp add: check_user_status_def check_user_status_try_def update_many_def Let_def
        ex_users_env_with_def ex_users_env_def ex_users_one_def ex_user_def lt_time_def
        bson_date_def timedelta_minutes_def)
  have d: "get_user_status (ex_users_env_with 18000000000000001 5 300000000)
         ''65f0a1b2c3d4e5f607182a01'' ex_users_one =
        ((JObj [(''success'', JBool True), (''status'', JStr ''idle''),
                (''last_seen'', JStr ''0001-01-01T00:00:00''),
                (''first_name'', JStr ''Ada''), (''department'', JStr ''CSC'')], 200),
         [ex_user ''65f0a1b2c3d4e5f607182a01'' ''john'' (Some ''idle'') (Some 0) (Some 0)])"
    unfolding get_user_status_def ObjectId_john
    by (simp add: ex_users_env_with_def ex_users_env_def ex_users_one_def ex_user_def
        find_one_def project_user_def Let_def get_default_def total_minutes_rounds_down
        status_body_def opt_json_def)
  from a b c d show ?thesis by blast
qed

subsection \<open>Presence: between the thresholds\<close>





subsection \<open>Presence: failing store calls\<close>

lemma get_user_status_find_raises:
  "ObjectId user_id = Inr oid \<Longrightarrow> db_raises env 0 = Some e \<Longrightarrow>
   get_user_status env user_id db = (server_error e, db)"
  by (simp add: get_user_status_def)

lemma get_user_status_update_raises:
  assumes "db_raises env 0 = None" "db_raises env 1 = None"
    and "snd (get_user_status env user_id db) \<noteq> db"
  shows "get_user_status (env\<lparr>db_raises := (db_raises env)(1 := Some e)\<rparr>) user_id db
           = (server_error e, db)"
proof (cases "ObjectId user_id")
  case (Inl x)
  with assms(3) show ?thesis by (simp add: get_user_status_def)
next
  case (Inr oid)
  show ?thesis
  proof (cases "find_one (\<lambda>u. doc_id u = oid) db")
    case None
    with Inr assms show ?thesis by (simp add: get_user_status_def)
  next
    case (Some u)
    show ?thesis
    proof (cases "last_active u")
      case None
      with Inr Some assms show ?thesis
        by (simp add: get_user_status_def project_user_def)
    next
      case (Some t)
      define st where "st = (if total_minutes (wat_time_func env 0 - t)
                                  > of_int (OFFLINE_THRESHOLD (STATUS_CONFIG env)) then ''offline''
                             else if total_minutes (wat_time_func env 0 - t)
                                  > of_int (IDLE_THRESHOLD (STATUS_CONFIG env)) then ''idle''
                             else get_default (status u) ''offline'')"
      have n: "Some st \<noteq> status u"
      proof
        assume "Some st = status u"
        with Inr \<open>find_one (\<lambda>u. doc_id u = oid) db = Some u\<close> Some assms(1)
        have "snd (get_user_status env user_id db) = db"
          by (simp add: get_user_status_def project_user_def Let_def st_def)
        with assms(3) show False by simp
      qed
      with Inr \<open>find_one (\<lambda>u. doc_id u = oid) db = Some u\<close> Some assms(1)
      show ?thesis
        by (auto simp add: get_user_status_def project_user_def Let_def st_def split: if_splits)
    qed
  qed
qed

lemma check_user_status_returns: "\<exists>printed. fst (check_user_status env db) = Inr printed"
  by (simp add: check_user_status_def split: prod.splits sum.splits)

text \<open>
  C5 (amended). A failing store call fails the status read: when \<open>find_one\<close> raises,
  and when the \<open>update_one\<close> that would persist a corrected status raises (that is,
  whenever the read would have changed the collection), the response is the 500 error with
  the text of the exception and the collection is unchanged; the stored status is not
  returned. The presence sweep never propagates a failure: \<open>check_user_status\<close> returns
  normally whatever the store calls do.
\<close>

theorem status_read_store_failure:
  "(ObjectId user_id = Inr oid \<and> db_raises env 0 = Some e \<longrightarrow>
        get_user_status env user_id db = (server_error e, db))
   \<and> (db_raises env 0 = None \<and> db_raises env 1 = None
        \<and> snd (get_user_status env user_id db) \<noteq> db \<longrightarrow>
        get_user_status (env\<lparr>db_raises := (db_raises env)(1 := Some e)\<rparr>) user_id db
          = (server_error e, db))
   \<and> (\<exists>printed. fst (check_user_status env db) = Inr printed)"
  using get_user_status_find_raises [of user_id oid env e db]
    get_user_status_update_raises [of env user_id db e]
    check_user_status_returns [of env db]
  by blast

theorem status_read_update_raises_counterexample:
  "db_raises ex_users_env_update_fails 0 = None
   \<and> db_raises ex_users_env_update_fails 1 = Some (PyMongoError ''connection closed'')
   \<and> status (ex_users ! 0) = Some ''online''
   \<and> get_user_status ex_users_env_update_fails ''65f0a1b2c3d4e5f607182a01'' ex_users =
        ((JObj [(''success'', JBool False), (''error'', JStr ''connection closed'')], 500), ex_users)"
proof -
  have o: "ObjectId ''65f0a1b2c3d4e5f607182a01'' = Inr ''65f0a1b2c3d4e5f607182a01''"
    by (simp add: ObjectId_def ObjectId_is_valid_def is_hex_digit_def ascii_lower_def)
  have tm: "total_minutes 3600000000 = 60"
    using total_minutes_whole [of 60] by (simp add: timedelta_minutes_def)
  have r: "get_user_status ex_users_env_update_fails ''65f0a1b2c3d4e5f607182a01'' ex_users =
        ((JObj [(''success'', JBool False), (''error'', JStr ''connection closed'')], 500), ex_users)"
    unfolding get_user_status_def o
    by (simp add: ex_users_env_update_fails_def ex_users_env_def ex_users_def ex_user_def
        find_one_def project_user_def Let_def get_default_def tm server_error_def)
  have e: "db_raises ex_users_env_update_fails 0 = None"
   "db_raises ex_users_env_update_fails 1 = Some (PyMongoError ''connection closed'')"
   "status (ex_users ! 0) = Some ''online''"
    by (simp_all add: ex_users_env_update_fails_def ex_users_def ex_user_def)
  from e r show ?thesis by blast
qed

theorem status_read_store_failure_witness:
  "ObjectId ''65f0a1b2c3d4e5f607182a01'' = Inr ''65f0a1b2c3d4e5f607182a01''
   \<and> db_raises ex_users_env 0 = None \<and> db_raises ex_users_env 1 = None
   \<and> snd (get_user_status ex_users_env ''65f0a1b2c3d4e5f607182a01'' ex_users) \<noteq> ex_users
   \<and> get_user_status
         (ex_users_env\<lparr>db_raises := (db_raises ex_users_env)(1 := Some (PyMongoError ''connection closed''))\<rparr>)
         ''65f0a1b2c3d4e5f607182a01'' ex_users
        = (server_error (PyMongoError ''connection closed''), ex_users)
   \<and> get_user_status
         (ex_users_env\<lparr>db_raises := (\<lambda>n. Some (PyMongoError ''connection closed''))\<rparr>)
         ''65f0a1b2c3d4e5f607182a01'' ex_users
        = (server_error (PyMongoError ''connection closed''), ex_users)
   \<and> (\<exists>printed. fst (check_user_status ex_users_env ex_users) = Inr printed)"
proof -
  let ?id = "''65f0a1b2c3d4e5f607182a01''" and ?e = "PyMongoError ''connection closed''"
  have o: "ObjectId ?id = Inr ?id"
    by (simp add: ObjectId_def ObjectId_is_valid_def is_hex_digit_def ascii_lower_def)
  have f: "db_raises ex_users_env 0 = None" "db_raises ex_users_env 1 = None"
    by (simp_all add: ex_users_env_def)
  have d: "distinct (map doc_id ex_users)" and i: "0 < length ex_users"
    and l: "last_active (ex_users ! 0) = Some 0"
    and o': "ObjectId ?id = Inr (doc_id (ex_users ! 0))"
    by (simp_all add: o ex_users_def ex_user_def)
  have t: "(0::int) < wat_time_func ex_users_env 0 - timedelta_minutes (OFFLINE_THRESHOLD (STATUS_CONFIG ex_users_env))"
    and b: "0 \<le> OFFLINE_THRESHOLD (STATUS_CONFIG ex_users_env)"
      "OFFLINE_THRESHOLD (STATUS_CONFIG ex_users_env) < 134217728"
    by (simp_all add: ex_users_env_def timedelta_minutes_def)
  have n: "snd (get_user_status ex_users_env ?id ex_users) \<noteq> ex_users"
    unfolding get_user_status_offline [OF o' d i l b t f]
    by (simp add: ex_users_def ex_user_def)
  have g: "db_raises (ex_users_env\<lparr>db_raises := (\<lambda>n. Some ?e)\<rparr>) 0 = Some ?e"
    by simp
  note th1 = status_read_store_failure [of ?id ?id "ex_users_env\<lparr>db_raises := (\<lambda>n. Some ?e)\<rparr>" ?e ex_users]
  note th2 = status_read_store_failure [of ?id ?id ex_users_env ?e ex_users]
  from th1 o g have a: "get_user_status (ex_users_env\<lparr>db_raises := (\<lambda>n. Some ?e)\<rparr>) ?id ex_users
        = (server_error ?e, ex_users)"
    by blast
  from th2 f n have b: "get_user_status
         (ex_users_env\<lparr>db_raises := (db_raises ex_users_env)(1 := Some ?e)\<rparr>) ?id ex_users
        = (server_error ?e, ex_users)"
    by blast
  from th2 have c: "\<exists>printed. fst (check_user_status ex_users_env ex_users) = Inr printed"
    by blast
  from o f n a b c show ?thesis by blast
qed

subsection \<open>Presence: what the status read reports as \<open>last_seen\<close>\<close>

text \<open>
  \<open>user_heartbeat\<close> stores \<open>online\<close> and two readings of the clock, each cut to
  the millisecond: the first as \<open>last_active\<close>, the second as \<open>last_seen\<close>.
\<close>

lemma user_heartbeat_sets_presence:
  assumes "ObjectId request_user_id = Inr (doc_id (db ! i))"
    and "distinct (map doc_id db)" and "i < length db"
    and "db_raises env 0 = None"
  shows "user_heartbeat env request_user_id db =
     ((JObj [(''success'', JBool True)], 200),
      db[i := (db ! i)\<lparr>status := Some ''online'',
                       last_active := Some (bson_date (wat_time_func env 0)),
                       last_seen := Some (bson_date (wat_time_func env 1))\<rparr>])"
  using assms(1,4) update_one_by_id [OF assms(2,3)]
  by (simp add: user_heartbeat_def Let_def)


lemma json_get_last_seen:
  "json_get ''last_seen'' (status_body env st (project_user u)) =
     Some (case last_active u of None \<Rightarrow> JNull | Some t \<Rightarrow> JStr (isoformat env t))"
  by (simp add: status_body_def project_user_def opt_json_def split: option.splits)

lemma get_user_status_found:
  assumes "ObjectId user_id = Inr (doc_id (db ! i))"
    and "distinct (map doc_id db)" and "i < length db"
  shows "(\<exists>e. fst (get_user_status env user_id db) = server_error e)
       \<or> (\<exists>st. fst (get_user_status env user_id db) = (status_body env st (project_user (db ! i)), 200))"
proof -
  have f: "find_one (\<lambda>u. doc_id u = doc_id (db ! i)) db = Some (db ! i)"
    by (rule find_one_by_id [OF assms(2,3)])
  show ?thesis
    using assms(1)
    by (auto simp add: get_user_status_def f Let_def split: option.splits)
qed

lemma get_user_status_code_200:
  assumes "ObjectId user_id = Inr (doc_id (db ! i))"
    and "distinct (map doc_id db)" and "i < length db"
    and "db_raises env 0 = None" and "db_raises env 1 = None"
  shows "snd (fst (get_user_status env user_id db)) = 200"
proof -
  have f: "find_one (\<lambda>u. doc_id u = doc_id (db ! i)) db = Some (db ! i)"
    by (rule find_one_by_id [OF assms(2,3)])
  show ?thesis
    using assms(1,4,5)
    by (simp add: get_user_status_def f Let_def split: option.splits)
qed

lemma get_user_status_ignores_last_seen:
  assumes "ObjectId user_id = Inr (doc_id (db ! i))"
    and "distinct (map doc_id db)" and "i < length db"
  shows "fst (get_user_status env user_id (db[i := (db ! i)\<lparr>last_seen := v\<rparr>]))
       = fst (get_user_status env user_id db)"
proof -
  let ?db = "db[i := (db ! i)\<lparr>last_seen := v\<rparr>]"
  have m: "map doc_id ?db = map doc_id db"
    by (simp add: map_update list_update_same_conv assms(3))
  have n: "?db ! i = (db ! i)\<lparr>last_seen := v\<rparr>" using assms(3) by simp
  have f: "find_one (\<lambda>u. doc_id u = doc_id (db ! i)) db = Some (db ! i)"
    by (rule find_one_by_id [OF assms(2,3)])
  have "find_one (\<lambda>u. doc_id u = doc_id (?db ! i)) ?db = Some (?db ! i)"
    by (rule find_one_by_id) (simp_all add: m assms(2,3))
  then have f': "find_one (\<lambda>u. doc_id u = doc_id (db ! i)) ?db = Some ((db ! i)\<lparr>last_seen := v\<rparr>)"
    by (simp add: n)
  have p: "project_user ((db ! i)\<lparr>last_seen := v\<rparr>) = project_user (db ! i)"
    by (simp add: project_user_def)
  show ?thesis
    using assms(1)
    by (simp add: get_user_status_def f f' p Let_def split: option.splits)
qed

text \<open>
  C10. For a user of the collection, every 200 response of the status read carries under
  \<open>last_seen\<close> the text of the stored \<open>last_active\<close>, or null when \<open>last_active\<close>
  is absent; the response is 200 when the store calls succeed; and the stored
  \<open>last_seen\<close> is never read: replacing it by any value leaves the response unchanged.
\<close>

theorem status_last_seen_is_last_active:
  assumes "ObjectId user_id = Inr (doc_id (db ! i))"
    and "distinct (map doc_id db)" and "i < length db"
  shows "(snd (fst (get_user_status env user_id db)) = 200 \<longrightarrow>
            json_get ''last_seen'' (fst (fst (get_user_status env user_id db))) =
              Some (case last_active (db ! i) of
                      None \<Rightarrow> JNull
                    | Some t \<Rightarrow> JStr (isoformat env t)))
       \<and> (db_raises env 0 = None \<and> db_raises env 1 = None \<longrightarrow>
            snd (fst (get_user_status env user_id db)) = 200)
       \<and> fst (get_user_status env user_id (db[i := (db ! i)\<lparr>last_seen := v\<rparr>]))
            = fst (get_user_status env user_id db)"
proof -
  have a: "json_get ''last_seen'' (fst (fst (get_user_status env user_id db))) =
              Some (case last_active (db ! i) of
                      None \<Rightarrow> JNull
                    | Some t \<Rightarrow> JStr (isoformat env t))"
    if c: "snd (fst (get_user_status env user_id db)) = 200"
  proof -
    from get_user_status_found [OF assms, of env] c
    obtain st where "fst (get_user_status env user_id db)
        = (status_body env st (project_user (db ! i)), 200)"
      by (auto simp: server_error_def)
    then show ?thesis by (simp add: json_get_last_seen)
  qed
  from a get_user_status_code_200 [OF assms] get_user_status_ignores_last_seen [OF assms]
  show ?thesis by blast
qed

theorem status_last_seen_is_last_active_witness:
  "ObjectId ''65f0a1b2c3d4e5f607182a03'' = Inr (doc_id (ex_users ! 2))
   \<and> distinct (map doc_id ex_users)
   \<and> last_active (ex_users ! 2) = Some 0 \<and> last_seen (ex_users ! 2) = Some 7000
   \<and> isoformat ex_users_env 0 = ''0001-01-01T00:00:00''
   \<and> isoformat ex_users_env 7000 = ''0001-01-01T00:00:00.007000''
   \<and> snd (fst (get_user_status ex_users_env ''65f0a1b2c3d4e5f607182a03'' ex_users)) = 200
   \<and> json_get ''last_seen'' (fst (fst (get_user_status ex_users_env ''65f0a1b2c3d4e5f607182a03'' ex_users)))
        = Some (JStr ''0001-01-01T00:00:00'')
   \<and> fst (get_user_status ex_users_env ''65f0a1b2c3d4e5f607182a03''
              (ex_users[2 := (ex_users ! 2)\<lparr>last_seen := None\<rparr>]))
        = fst (get_user_status ex_users_env ''65f0a1b2c3d4e5f607182a03'' ex_users)"
proof -
  let ?id = "''65f0a1b2c3d4e5f607182a03''"
  have o: "ObjectId ?id = Inr (doc_id (ex_users ! 2))"
    by (simp add: ObjectId_def ObjectId_is_valid_def is_hex_digit_def ascii_lower_def
        ex_users_def ex_user_def)
  have d: "distinct (map doc_id ex_users)" and i: "2 < length ex_users"
    and l: "last_active (ex_users ! 2) = Some 0" "last_seen (ex_users ! 2) = Some 7000"
    by (simp_all add: ex_users_def ex_user_def)
  have f: "db_raises ex_users_env 0 = None" "db_raises ex_users_env 1 = None"
    and s: "isoformat ex_users_env 0 = ''0001-01-01T00:00:00''"
      "isoformat ex_users_env 7000 = ''0001-01-01T00:00:00.007000''"
    by (simp_all add: ex_users_env_def)
  note th = status_last_seen_is_last_active [OF o d i, of ex_users_env None]
  from th f have c: "snd (fst (get_user_status ex_users_env ?id ex_users)) = 200" by blast
  with th have "json_get ''last_seen'' (fst (fst (get_user_status ex_users_env ?id ex_users))) =
              Some (case last_active (ex_users ! 2) of
                      None \<Rightarrow> JNull
                    | Some t \<Rightarrow> JStr (isoformat ex_users_env t))"
    by blast
  then have j: "json_get ''last_seen'' (fst (fst (get_user_status ex_users_env ?id ex_users)))
        = Some (JStr ''0001-01-01T00:00:00'')"
    by (simp add: l s)
  from th have k: "fst (get_user_status ex_users_env ?id (ex_users[2 := (ex_users ! 2)\<lparr>last_seen := None\<rparr>]))
        = fst (get_user_status ex_users_env ?id ex_users)"
    by blast
  from o d l s c j k show ?thesis by blast
qed

subsection \<open>Signing in\<close>

text \<open>
  On a nickname without special characters, and stored nicknames without a newline, the
  pattern \<open>^nickname$\<close> matches a stored nickname exactly when the two are equal up to
  letter case.
\<close>

lemma match_here_plain:
  assumes "\<not> list_ex regex_special n" and "CHR 0x0A \<notin> set s"
  shows "match_here (n @ ''$'') s = (map ascii_lower s = map ascii_lower n)"
  using assms
proof (induction n arbitrary: s)
  case Nil
  then show ?case by auto
next
  case (Cons p ps)
  from Cons.prems(1) have "\<not> regex_special p" and ps: "\<not> list_ex regex_special ps"
    by simp_all
  then have p: "p \<noteq> CHR ''.''" "p \<noteq> CHR ''$''"
    by (auto simp: regex_special_def)
  obtain q qs where q: "ps @ ''$'' = q # qs" by (cases "ps @ ''$''") auto
  show ?case
  proof (cases s)
    case Nil
    then show ?thesis by (simp add: q)
  next
    case (Cons c cs)
    with Cons.prems(2) have "CHR 0x0A \<notin> set cs" by simp
    from Cons.IH [OF ps this] have "match_here (q # qs) cs = (map ascii_lower cs = map ascii_lower ps)"
      by (simp add: q)
    with Cons p show ?thesis by (auto simp: q)
  qed
qed

lemma pcre_search_i_plain:
  assumes "\<not> list_ex regex_special n" and "CHR 0x0A \<notin> set s"
  shows "pcre_search_i (''^'' @ n @ ''$'') s = (map ascii_lower s = map ascii_lower n)"
  using match_here_plain [OF assms] by (simp add: pcre_search_i_def)

lemma find_first:
  assumes "i < length db" "P (db ! i)" "\<forall>j < i. \<not> P (db ! j)"
  shows "find_one P db = Some (db ! i)"
  using assms unfolding find_one_def
proof (induction db arbitrary: i)
  case Nil
  then show ?case by simp
next
  case (Cons x xs)
  show ?case
  proof (cases i)
    case 0
    with Cons.prems show ?thesis by simp
  next
    case (Suc k)
    with Cons.prems have "\<not> P x" by auto
    moreover have "List.find P xs = Some (xs ! k)"
    proof (rule Cons.IH)
      show "k < length xs" using Cons.prems Suc by simp
      show "P (xs ! k)" using Cons.prems Suc by simp
      show "\<forall>j<k. \<not> P (xs ! j)" using Cons.prems(3) Suc by auto
    qed
    ultimately show ?thesis using Suc by simp
  qed
qed

text \<open>
  Signing in with a nickname free of special characters: the pattern then matches exactly
  the stored nicknames equal to it up to letter case, and the first such user whose
  password checks is signed in.
\<close>

lemma signin_case_insensitive:
  assumes "regex_search_i env = pcre_search_i"
    and "\<not> list_ex regex_special n"
    and "\<forall>u \<in> set db. CHR 0x0A \<notin> set (nickname u)"
    and "distinct (map doc_id db)" and "i < length db"
    and "map ascii_lower (nickname (db ! i)) = map ascii_lower n"
    and "\<forall>j < i. map ascii_lower (nickname (db ! j)) \<noteq> map ascii_lower n"
    and "check_password_hash env (get_default (password (db ! i)) []) pw"
    and "db_raises env 0 = None" and "db_raises env 1 = None"
  shows "signin env (Some \<lparr>data_nickname = Some n, data_password = Some pw\<rparr>) db =
       ((JObj [(''success'', JBool True),
               (''token'', JStr (jwt_encode env (doc_id (db ! i)) (nickname (db ! i))
                                   (jwt_utcnow env + timedelta_hours 2))),
               (''user'', sanitize_user_data (db ! i))], 200),
        db[i := (db ! i)\<lparr>last_login := Some (bson_date (wat_time_func env 0))\<rparr>])"
proof -
  let ?P = "\<lambda>u. regex_search_i env (''^'' @ n @ ''$'') (nickname u)"
  have e: "?P u = (map ascii_lower (nickname u) = map ascii_lower n)" if "u \<in> set db" for u
  proof -
    from that assms(3) have "CHR 0x0A \<notin> set (nickname u)" by blast
    from pcre_search_i_plain [OF assms(2) this] show ?thesis by (simp only: assms(1))
  qed
  have "find_one ?P db = Some (db ! i)"
  proof (rule find_first [OF assms(5)])
    have "db ! i \<in> set db" using assms(5) by simp
    from e [OF this] assms(6) show "?P (db ! i)" by blast
    show "\<forall>j<i. \<not> ?P (db ! j)"
    proof (intro allI impI)
      fix j assume "j < i"
      with assms(5) have "db ! j \<in> set db" by simp
      from e [OF this] assms(7) \<open>j < i\<close> show "\<not> ?P (db ! j)" by blast
    qed
  qed
  then show ?thesis
    using assms(8-10) update_one_by_id [OF assms(4,5)]
    by (simp add: signin_def Let_def)
qed


text \<open>
  C7. Sign-in succeeds only when the supplied nickname equals a stored nickname up to
  letter case. The code does not do this: it puts the nickname into the pattern as it
  came, so a dot in it matches any character. With the stored nicknames \<open>john\<close>,
  \<open>mary\<close> and \<open>tobi\<close>, a sign-in with the nickname \<open>j.hn\<close> and the password of
  \<open>john\<close> answers 200 with a token for \<open>john\<close> and stamps his \<open>last_login\<close>.
\<close>

theorem signin_pattern_nickname:
  "map (map ascii_lower \<circ> nickname) ex_users = [''john'', ''mary'', ''tobi'']
   \<and> map ascii_lower ''j.hn'' = ''j.hn''
   \<and> signin ex_users_env
        (Some \<lparr>data_nickname = Some ''j.hn'', data_password = Some ''secret-pw''\<rparr>) ex_users =
       ((JObj [(''success'', JBool True),
               (''token'', JStr ''token-for-65f0a1b2c3d4e5f607182a01''),
               (''user'', sanitize_user_data (ex_users ! 0))], 200),
        ex_users[0 := (ex_users ! 0)\<lparr>last_login := Some 3600000000\<rparr>])"
proof -
  have a: "map (map ascii_lower \<circ> nickname) ex_users = [''john'', ''mary'', ''tobi'']"
    by (simp add: ex_users_def ex_user_def ascii_lower_def)
  have b: "map ascii_lower ''j.hn'' = ''j.hn''"
    by (simp add: ascii_lower_def)
  have m: "pcre_search_i (''^'' @ ''j.hn'' @ ''$'') ''john''"
    by (simp add: pcre_search_i_def ascii_lower_def)
  have c: "signin ex_users_env
        (Some \<lparr>data_nickname = Some ''j.hn'', data_password = Some ''secret-pw''\<rparr>) ex_users =
       ((JObj [(''success'', JBool True),
               (''token'', JStr ''token-for-65f0a1b2c3d4e5f607182a01''),
               (''user'', sanitize_user_data (ex_users ! 0))], 200),
        ex_users[0 := (ex_users ! 0)\<lparr>last_login := Some 3600000000\<rparr>])"
    using m
    by (simp add: signin_def ex_users_env_def ex_users_def ex_user_def find_one_def
        get_default_def bson_date_def Let_def)
  from a b c show ?thesis by blast
qed

end
